theory Spec2Isabelle
  imports Complex_Main
begin

section \<open>The Fermi estimation agents of the recall-prediction dashboard\<close>

text \<open>
  The theory embeds the agent classes of \<^verbatim>\<open>taiwan_recall_prediction/dashboard.py\<close>:
  the five coefficient agents, the forum-sentiment agent and the master agent that
  combines them.

  Conventions of the embedding.
  \<^item> Python's \<^verbatim>\<open>float\<close> is modelled by \<open>real\<close>: rounding, infinities and NaN are not
    modelled. The code works on a percent scale (a turnout of 25 means 25 per cent).
  \<^item> A Python \<^verbatim>\<open>str\<close> is the list of its code points (\<open>nat list\<close>), so that
    \<^verbatim>\<open>len\<close>, \<^verbatim>\<open>in\<close> and \<^verbatim>\<open>split\<close> count what Python counts. ASCII literals are written
    \<open>ascii ''...''\<close>; the Chinese literals of the source are spelled out as code points.
  \<^item> A \<^verbatim>\<open>dict\<close> is the list of its items in insertion order, with distinct keys;
    a \<^verbatim>\<open>dict\<close> whose keys are fixed in the source and hold values of different types
    is a record.
  \<^item> A raised exception is the left summand of the result.
  \<^item> The module-level generator of \<^verbatim>\<open>random\<close> is an explicit state threaded through the
    calls that draw from it.
\<close>

subsection \<open>Strings\<close>

type_synonym pystr = "nat list"

definition ascii :: "string \<Rightarrow> pystr" where
  "ascii s = map of_char s"

text \<open>\<^verbatim>\<open>t.startswith(s)\<close>.\<close>

fun startswith :: "pystr \<Rightarrow> pystr \<Rightarrow> bool" where
  "startswith t [] = True"
| "startswith [] (c # s) = False"
| "startswith (d # t) (c # s) = (d = c \<and> startswith t s)"

text \<open>\<^verbatim>\<open>s in t\<close> on strings: \<open>s\<close> occurs in \<open>t\<close> as a contiguous run.\<close>

fun str_in :: "pystr \<Rightarrow> pystr \<Rightarrow> bool" where
  "str_in s [] = (s = [])"
| "str_in s (d # t) = (startswith (d # t) s \<or> str_in s t)"

text \<open>\<^verbatim>\<open>any(name in target for name in names)\<close>.\<close>

definition any_in :: "pystr list \<Rightarrow> pystr \<Rightarrow> bool" where
  "any_in names target = list_ex (\<lambda>name. str_in name target) names"

text \<open>The code points for which \<^verbatim>\<open>str.isspace\<close> holds.\<close>

definition isspace :: "nat \<Rightarrow> bool" where
  "isspace c = ((9 \<le> c \<and> c \<le> 13) \<or> (28 \<le> c \<and> c \<le> 32) \<or> c = 133 \<or> c = 160
      \<or> c = 5760 \<or> (8192 \<le> c \<and> c \<le> 8202) \<or> c = 8232 \<or> c = 8233 \<or> c = 8239
      \<or> c = 8287 \<or> c = 12288)"

text \<open>\<^verbatim>\<open>s.split()\<close>: the maximal runs of non-space characters; \<open>cur\<close> is the run
  being read.\<close>

fun split_from :: "pystr \<Rightarrow> pystr \<Rightarrow> pystr list" where
  "split_from cur [] = (if cur = [] then [] else [cur])"
| "split_from cur (c # s) =
     (if isspace c then (if cur = [] then split_from [] s else cur # split_from [] s)
      else split_from (cur @ [c]) s)"

definition str_split :: "pystr \<Rightarrow> pystr list" where
  "str_split s = split_from [] s"

subsection \<open>Names used as keys\<close>

text \<open>The three age groups: youth, middle-aged, elder.\<close>

definition youth_key :: pystr where "youth_key = [38738, 24180, 23652]"
definition middle_key :: pystr where "middle_key = [20013, 24180, 23652]"
definition elder_key :: pystr where "elder_key = [38263, 32773, 23652]"

text \<open>Names of politicians that the tables mention: Han Kuo-yu, Ko Wen-je, Lo Chih-chiang,
  Jaw Shaw-kong.\<close>

definition han_kuo_yu :: pystr where "han_kuo_yu = [38867, 22283, 29788]"
definition ko_wen_je :: pystr where "ko_wen_je = [26607, 25991, 21746]"
definition lo_chih_chiang :: pystr where "lo_chih_chiang = [32645, 26234, 24375]"
definition jaw_shaw_kong :: pystr where "jaw_shaw_kong = [36249, 23569, 24247]"

text \<open>Weather labels: typhoon, rainstorm, extreme heat; and the default label, sunny.\<close>

definition typhoon :: pystr where "typhoon = [39089, 39080]"
definition rainstorm :: pystr where "rainstorm = [26292, 38632]"
definition extreme_heat :: pystr where "extreme_heat = [26997, 31471, 39640, 28331]"
definition sunny :: pystr where "sunny = [26228, 22825]"

subsection \<open>Dictionaries and exceptions\<close>

datatype py_error = KeyError pystr

text \<open>\<^verbatim>\<open>d.get(k, dflt)\<close> and \<^verbatim>\<open>d[k]\<close> on a dictionary given by its items.\<close>

definition dict_get :: "(pystr \<times> 'v) list \<Rightarrow> pystr \<Rightarrow> 'v \<Rightarrow> 'v" where
  "dict_get d k dflt = (case map_of d k of None \<Rightarrow> dflt | Some v \<Rightarrow> v)"

definition dict_item :: "(pystr \<times> 'v) list \<Rightarrow> pystr \<Rightarrow> py_error + 'v" where
  "dict_item d k = (case map_of d k of None \<Rightarrow> Inl (KeyError k) | Some v \<Rightarrow> Inr v)"

text \<open>\<^verbatim>\<open>scenario_data.get(key, dflt)\<close> on an optional entry of the scenario.\<close>

definition get_or :: "'a option \<Rightarrow> 'a \<Rightarrow> 'a" where
  "get_or entry dflt = (case entry of None \<Rightarrow> dflt | Some v \<Rightarrow> v)"

subsection \<open>PsychologicalMotivationAgent\<close>

record motivation_params =
  political_interest :: real
  political_efficacy :: real
  economic_motivation :: real

record motivation_result = motivation_params +
  percentage :: real
  voting_intention :: real

definition base_table :: "(pystr \<times> motivation_params) list" where
  "base_table =
    [(youth_key, \<lparr> political_interest = 0.6, political_efficacy = 0.7,
                   economic_motivation = 0.8 \<rparr>),
     (middle_key, \<lparr> political_interest = 0.8, political_efficacy = 0.6,
                    economic_motivation = 0.9 \<rparr>),
     (elder_key, \<lparr> political_interest = 0.9, political_efficacy = 0.5,
                   economic_motivation = 0.7 \<rparr>)]"

definition get_base_params :: "pystr \<Rightarrow> (pystr \<times> motivation_params) list" where
  "get_base_params recall_target =
     (if any_in [han_kuo_yu, ko_wen_je, lo_chih_chiang] recall_target
      then map (\<lambda>(age, p). (age, p\<lparr> political_interest := political_interest p * 1.2 \<rparr>))
             base_table
      else base_table)"

text \<open>The loop over \<^verbatim>\<open>age_structure.items()\<close>. The subscript \<^verbatim>\<open>base_params[age_group]\<close>
  raises \<^verbatim>\<open>KeyError\<close> at the first age group that the table does not have.\<close>

fun psychological_loop ::
  "(pystr \<times> motivation_params) list \<Rightarrow> (pystr \<times> real) list
     \<Rightarrow> py_error + (pystr \<times> motivation_result) list" where
  "psychological_loop base_params [] = Inr []"
| "psychological_loop base_params ((age_group, pct) # rest) =
     (case dict_item base_params age_group of
        Inl e \<Rightarrow> Inl e
      | Inr p \<Rightarrow>
          (case psychological_loop base_params rest of
             Inl e \<Rightarrow> Inl e
           | Inr results \<Rightarrow>
               Inr ((age_group,
                     \<lparr> political_interest = political_interest p,
                       political_efficacy = political_efficacy p,
                       economic_motivation = economic_motivation p,
                       percentage = pct,
                       voting_intention =
                         political_interest p * political_efficacy p * economic_motivation p \<rparr>)
                    # results)))"

definition PsychologicalMotivationAgent_analyze ::
  "(pystr \<times> real) list \<Rightarrow> pystr \<Rightarrow> (pystr \<times> real) list
     \<Rightarrow> py_error + (pystr \<times> motivation_result) list" where
  "PsychologicalMotivationAgent_analyze age_structure recall_target political_context =
     psychological_loop (get_base_params recall_target) age_structure"

subsection \<open>MediaEnvironmentAgent\<close>

record media_result =
  media_coefficient :: real
  dominant_platforms :: "pystr list"

definition media_weights :: "(pystr \<times> (pystr \<times> real) list) list" where
  "media_weights =
    [(youth_key, [(ascii ''IG'', 0.3), (ascii ''TikTok'', 0.25), (ascii ''YouTube'', 0.25),
                  (ascii ''PTT'', 0.2)]),
     (middle_key, [(ascii ''Facebook'', 0.4), (ascii ''LINE'', 0.3), (ascii ''TV'', 0.2),
                   (ascii ''News'', 0.1)]),
     (elder_key, [(ascii ''TV'', 0.5), (ascii ''Newspaper'', 0.2), (ascii ''Radio'', 0.2),
                  (ascii ''Word'', 0.1)])]"

definition get_media_attention :: "pystr \<Rightarrow> real" where
  "get_media_attention recall_target =
     (if any_in [han_kuo_yu, ko_wen_je, lo_chih_chiang, jaw_shaw_kong] recall_target
      then 1.5 else 1.0)"

definition multipliers :: "(pystr \<times> real) list" where
  "multipliers =
    [(ascii ''IG'', 1.1), (ascii ''TikTok'', 1.2), (ascii ''YouTube'', 1.0),
     (ascii ''PTT'', 1.3), (ascii ''Facebook'', 1.1), (ascii ''LINE'', 0.9),
     (ascii ''TV'', 1.2), (ascii ''News'', 1.0), (ascii ''Newspaper'', 0.8),
     (ascii ''Radio'', 0.7), (ascii ''Word'', 0.8)]"

definition get_platform_multiplier :: "pystr \<Rightarrow> real" where
  "get_platform_multiplier platform = dict_get multipliers platform 1.0"

text \<open>The inner loop over the platforms of one age group, from the base value 0.5, and
  the clamp that follows it.\<close>

definition platform_sum :: "real \<Rightarrow> (pystr \<times> real) list \<Rightarrow> real" where
  "platform_sum base_attention weights =
     fold (\<lambda>(platform, weight) coefficient.
             coefficient + base_attention * weight * get_platform_multiplier platform * 0.3)
       weights 0.5"

definition media_entry :: "real \<Rightarrow> (pystr \<times> real) list \<Rightarrow> media_result" where
  "media_entry base_attention weights =
     \<lparr> media_coefficient = max 0.5 (min (platform_sum base_attention weights) 1.5),
       dominant_platforms = take 2 (map fst weights) \<rparr>"

fun media_loop :: "real \<Rightarrow> pystr list \<Rightarrow> py_error + (pystr \<times> media_result) list" where
  "media_loop base_attention [] = Inr []"
| "media_loop base_attention (age_group # rest) =
     (case dict_item media_weights age_group of
        Inl e \<Rightarrow> Inl e
      | Inr weights \<Rightarrow>
          (case media_loop base_attention rest of
             Inl e \<Rightarrow> Inl e
           | Inr results \<Rightarrow> Inr ((age_group, media_entry base_attention weights) # results)))"

definition MediaEnvironmentAgent_analyze ::
  "(pystr \<times> real) list \<Rightarrow> pystr \<Rightarrow> (pystr \<times> real) list
     \<Rightarrow> py_error + (pystr \<times> media_result) list" where
  "MediaEnvironmentAgent_analyze age_structure recall_target media_coverage =
     media_loop (get_media_attention recall_target) (map fst age_structure)"

subsection \<open>SocialAtmosphereAgent\<close>

record social_result =
  social_coefficient :: real
  sentiment_impact :: real
  heat_impact :: real
  pressure_impact :: real

definition calculate_sentiment_score :: "(pystr \<times> real) list \<Rightarrow> real" where
  "calculate_sentiment_score forum_sentiment =
     (let dcard_positive = dict_get forum_sentiment (ascii ''dcard_positive'') 20 / 100;
          ptt_positive = dict_get forum_sentiment (ascii ''ptt_positive'') 30 / 100
      in (dcard_positive + ptt_positive) / 2 + 0.5)"

definition calculate_heat_multiplier :: "real \<Rightarrow> real" where
  "calculate_heat_multiplier discussion_heat = min (discussion_heat / 100 + 0.8) 1.5"

definition calculate_pressure_factor :: "real \<Rightarrow> real" where
  "calculate_pressure_factor peer_pressure = min (peer_pressure / 100 + 0.9) 1.3"

definition age_groups :: "pystr list" where
  "age_groups = [youth_key, middle_key, elder_key]"

definition sensitivity_map :: "(pystr \<times> real) list" where
  "sensitivity_map = [(youth_key, 0.3), (middle_key, 0.25), (elder_key, 0.2)]"

definition social_entry :: "real \<Rightarrow> real \<Rightarrow> real \<Rightarrow> real \<Rightarrow> social_result" where
  "social_entry sentiment_score heat_multiplier pressure_factor sensitivity =
     \<lparr> social_coefficient =
         max 0.5 (min (0.7 + sentiment_score * heat_multiplier * pressure_factor * sensitivity)
                    1.5),
       sentiment_impact = sentiment_score,
       heat_impact = heat_multiplier,
       pressure_impact = pressure_factor \<rparr>"

fun social_loop ::
  "real \<Rightarrow> real \<Rightarrow> real \<Rightarrow> pystr list \<Rightarrow> py_error + (pystr \<times> social_result) list" where
  "social_loop sentiment_score heat_multiplier pressure_factor [] = Inr []"
| "social_loop sentiment_score heat_multiplier pressure_factor (age_group # rest) =
     (case dict_item sensitivity_map age_group of
        Inl e \<Rightarrow> Inl e
      | Inr sensitivity \<Rightarrow>
          (case social_loop sentiment_score heat_multiplier pressure_factor rest of
             Inl e \<Rightarrow> Inl e
           | Inr results \<Rightarrow>
               Inr ((age_group,
                     social_entry sentiment_score heat_multiplier pressure_factor sensitivity)
                    # results)))"

definition SocialAtmosphereAgent_analyze ::
  "(pystr \<times> real) list \<Rightarrow> real \<Rightarrow> real \<Rightarrow> py_error + (pystr \<times> social_result) list" where
  "SocialAtmosphereAgent_analyze forum_sentiment discussion_heat peer_pressure =
     social_loop (calculate_sentiment_score forum_sentiment)
       (calculate_heat_multiplier discussion_heat)
       (calculate_pressure_factor peer_pressure) age_groups"

subsection \<open>ClimateConditionAgent\<close>

record climate_result =
  weather_coefficient :: real
  temperature_impact :: real
  rainfall_impact :: real
  condition_impact :: pystr

text \<open>The adjustment after the temperature \<^verbatim>\<open>if/elif/elif\<close> chain, in the order of the
  source: the test \<^verbatim>\<open>temperature > 30\<close> comes first.\<close>

definition temperature_step :: "real \<Rightarrow> real \<Rightarrow> real" where
  "temperature_step temperature adj =
     (if temperature > 30 then adj - 0.05
      else if temperature > 35 then adj - 0.1
      else if temperature < 10 then adj - 0.08
      else adj)"

definition rainfall_step :: "real \<Rightarrow> real \<Rightarrow> real" where
  "rainfall_step rainfall adj =
     (if rainfall > 5 then adj - 0.1
      else if rainfall > 15 then adj - 0.2
      else adj)"

definition condition_step :: "pystr \<Rightarrow> real \<Rightarrow> real" where
  "condition_step weather_condition adj =
     (if weather_condition \<in> set [typhoon, rainstorm, extreme_heat] then adj - 0.15 else adj)"

definition ClimateConditionAgent_analyze :: "real \<Rightarrow> real \<Rightarrow> pystr \<Rightarrow> climate_result" where
  "ClimateConditionAgent_analyze temperature rainfall weather_condition =
     (let weather_adjustment =
            condition_step weather_condition
              (rainfall_step rainfall (temperature_step temperature 1.0))
      in \<lparr> weather_coefficient = max weather_adjustment 0.5,
           temperature_impact = temperature,
           rainfall_impact = rainfall,
           condition_impact = weather_condition \<rparr>)"

subsection \<open>RegionalGeographyAgent\<close>

record regional_result =
  adjustment_factor :: real
  regional_coefficient :: real
  historical_impact :: real
  mobilization_impact :: real
  region_multiplier :: real

text \<open>The keys are the two-character names of the twenty cities and counties, from
  Taipei to Lienchiang, in the order of the source.\<close>

definition region_factors :: "(pystr \<times> real) list" where
  "region_factors =
    [([21488, 21271], 1.05),
     ([26032, 21271], 1.02),
     ([26691, 22290], 1.0),
     ([21488, 20013], 1.03),
     ([21488, 21335], 1.08),
     ([39640, 38596], 1.06),
     ([22522, 38534], 0.98),
     ([26032, 31481], 1.01),
     ([33495, 26647], 0.97),
     ([24432, 21270], 1.0),
     ([21335, 25237], 0.96),
     ([38642, 26519], 0.98),
     ([22025, 32681], 1.02),
     ([23631, 26481], 1.04),
     ([23452, 34349], 0.99),
     ([33457, 34030], 0.95),
     ([21488, 26481], 0.94),
     ([28558, 28246], 0.92),
     ([37329, 38272], 0.9),
     ([36899, 27743], 0.88)]"

text \<open>The loop returns the factor of the first key that occurs in \<open>region\<close>.\<close>

definition get_region_multiplier :: "pystr \<Rightarrow> real" where
  "get_region_multiplier region =
     (case find (\<lambda>(key, factor). str_in key region) region_factors of
        Some (key, factor) \<Rightarrow> factor
      | None \<Rightarrow> 1.0)"

definition historical_step :: "real \<Rightarrow> real \<Rightarrow> real" where
  "historical_step historical_turnout base_adjustment =
     (if historical_turnout > 60 then base_adjustment + 0.1
      else if historical_turnout < 50 then base_adjustment - 0.05
      else base_adjustment)"

definition RegionalGeographyAgent_analyze :: "pystr \<Rightarrow> real \<Rightarrow> real \<Rightarrow> regional_result" where
  "RegionalGeographyAgent_analyze region historical_turnout mobilization_capacity =
     (let base_adjustment = historical_step historical_turnout 1.0;
          mobilization_factor = mobilization_capacity / 100;
          base_adjustment = base_adjustment * (0.9 + mobilization_factor * 0.2);
          multiplier = get_region_multiplier region;
          final_adjustment = base_adjustment * multiplier
      in \<lparr> adjustment_factor = max (min final_adjustment 1.1) 0.95,
           regional_coefficient = max (min final_adjustment 1.1) 0.95,
           historical_impact = historical_turnout,
           mobilization_impact = mobilization_capacity,
           region_multiplier = multiplier \<rparr>)"

subsection \<open>The random generator\<close>

text \<open>
  The state of the generator is the stream of the numbers that successive calls of
  \<^verbatim>\<open>random.random()\<close> return, each in \<open>[0, 1)\<close>, with the position of the next one.
  \<^verbatim>\<open>uniform(a, b)\<close> is \<open>a + (b - a) * random()\<close> as in the library. The library computes
  \<^verbatim>\<open>randint(a, b)\<close> from random bits with rejection sampling and not from
  \<^verbatim>\<open>random()\<close>; here it is abstracted to one number of the stream scaled to \<open>a .. b\<close>,
  which reaches every value of the range. Which draw gives which integer, and how many
  draws a call of \<^verbatim>\<open>randint\<close> takes, is therefore not that of the library; the
  properties proved for every generator state do not depend on it.
\<close>

type_synonym rng = "(nat \<Rightarrow> real) \<times> nat"

definition random_random :: "rng \<Rightarrow> real \<times> rng" where
  "random_random g = (fst g (snd g), (fst g, snd g + 1))"

definition uniform :: "real \<Rightarrow> real \<Rightarrow> rng \<Rightarrow> real \<times> rng" where
  "uniform a b g = (let (u, g') = random_random g in (a + (b - a) * u, g'))"

definition randint :: "int \<Rightarrow> int \<Rightarrow> rng \<Rightarrow> int \<times> rng" where
  "randint a b g =
     (let (u, g') = random_random g in (a + \<lfloor>u * real_of_int (b - a + 1)\<rfloor>, g'))"

subsection \<open>ForumSentimentAgent\<close>

text \<open>The forums are PTT, Dcard and Mobile01.\<close>

definition get_forum_usage_by_age :: "(pystr \<times> (pystr \<times> real) list) list" where
  "get_forum_usage_by_age =
    [(ascii ''youth'',
        [(ascii ''ptt'', 0.45), (ascii ''dcard'', 0.35), (ascii ''mobile01'', 0.20)]),
     (ascii ''middle'',
        [(ascii ''ptt'', 0.25), (ascii ''dcard'', 0.15), (ascii ''mobile01'', 0.60)]),
     (ascii ''elder'',
        [(ascii ''ptt'', 0.10), (ascii ''dcard'', 0.05), (ascii ''mobile01'', 0.85)])]"

text \<open>An entry of \<^verbatim>\<open>forum_characteristics\<close>; its second field is the key
  \<^verbatim>\<open>'volatility'\<close> of the source.\<close>

record forum_characteristic =
  negativity_bias :: real
  forum_volatility :: real

definition forum_characteristics :: "(pystr \<times> forum_characteristic) list" where
  "forum_characteristics =
    [(ascii ''ptt'', \<lparr> negativity_bias = 1.2, forum_volatility = 1.3 \<rparr>),
     (ascii ''dcard'', \<lparr> negativity_bias = 0.9, forum_volatility = 1.1 \<rparr>),
     (ascii ''mobile01'', \<lparr> negativity_bias = 1.0, forum_volatility = 0.8 \<rparr>)]"

record sentiment_sample =
  positive_ratio :: real
  negative_ratio :: real
  sample_size :: int

record forum_sample = sentiment_sample +
  volatility :: real

text \<open>The default of the \<^verbatim>\<open>get\<close> is \<^verbatim>\<open>forum_characteristics['ptt']\<close>. The base sentiment
  is drawn first, the sample size second.\<close>

definition crawl_forum_sentiment :: "pystr \<Rightarrow> pystr \<Rightarrow> rng \<Rightarrow> forum_sample \<times> rng" where
  "crawl_forum_sentiment target_name forum_type g =
     (let char = dict_get forum_characteristics forum_type
                   \<lparr> negativity_bias = 1.2, forum_volatility = 1.3 \<rparr>;
          (base_sentiment, g1) = uniform 0.3 0.7 g;
          adjusted_sentiment = base_sentiment / negativity_bias char;
          adjusted_sentiment = max 0.1 (min 0.9 adjusted_sentiment);
          (size, g2) = randint 50 200 g1
      in (\<lparr> positive_ratio = adjusted_sentiment,
            negative_ratio = 1 - adjusted_sentiment,
            sample_size = size,
            volatility = forum_volatility char \<rparr>, g2))"

text \<open>The news sources: Liberty Times, United Daily News, China Times, Apple Daily and
  ETtoday.\<close>

definition liberty_times :: pystr where "liberty_times = [33258, 30001, 26178, 22577]"
definition united_daily :: pystr where "united_daily = [32879, 21512, 22577]"
definition china_times :: pystr where "china_times = [20013, 22283, 26178, 22577]"
definition apple_daily :: pystr where "apple_daily = [34315, 26524, 26085, 22577]"

definition news_sources :: "pystr list" where
  "news_sources = [liberty_times, united_daily, china_times, apple_daily, ascii ''ETtoday'']"

definition source_bias :: "pystr \<Rightarrow> real" where
  "source_bias source =
     (if source \<in> set [liberty_times, apple_daily] then 0.6
      else if source \<in> set [united_daily, china_times] then 0.4
      else 0.5)"

record news_totals =
  total_positive :: real
  total_negative :: real
  total_samples :: int

definition news_step :: "pystr \<Rightarrow> news_totals \<times> rng \<Rightarrow> news_totals \<times> rng" where
  "news_step source st =
     (let (tot, g) = st;
          bias = source_bias source;
          (sentiment, g1) = uniform (bias - 0.1) (bias + 0.1) g;
          (samples, g2) = randint 20 80 g1
      in (\<lparr> total_positive = total_positive tot + sentiment * real_of_int samples,
            total_negative = total_negative tot + (1 - sentiment) * real_of_int samples,
            total_samples = total_samples tot + samples \<rparr>, g2))"

definition crawl_news_sentiment :: "pystr \<Rightarrow> rng \<Rightarrow> sentiment_sample \<times> rng" where
  "crawl_news_sentiment target_name g =
     (let (tot, g') =
            fold news_step news_sources
              (\<lparr> total_positive = 0, total_negative = 0, total_samples = 0 \<rparr>, g)
      in (\<lparr> positive_ratio =
              (if total_samples tot > 0
               then total_positive tot / real_of_int (total_samples tot) else 0.5),
            negative_ratio =
              (if total_samples tot > 0
               then total_negative tot / real_of_int (total_samples tot) else 0.5),
            sample_size = total_samples tot \<rparr>, g'))"

text \<open>The weighted blend over the forums of one age group: the loop that fills
  \<^verbatim>\<open>youth_sentiment\<close> and \<^verbatim>\<open>middle_sentiment\<close>.\<close>

record blend =
  positive :: real
  negative :: real
  total_weight :: real

definition blend_step :: "pystr \<Rightarrow> pystr \<times> real \<Rightarrow> blend \<times> rng \<Rightarrow> blend \<times> rng" where
  "blend_step target_name item st =
     (let (forum, weight) = item;
          (acc, g) = st;
          (sentiment, g') = crawl_forum_sentiment target_name forum g
      in (\<lparr> positive = positive acc + positive_ratio sentiment * weight,
            negative = negative acc + negative_ratio sentiment * weight,
            total_weight = total_weight acc + weight \<rparr>, g'))"

definition blend_forums :: "pystr \<Rightarrow> (pystr \<times> real) list \<Rightarrow> rng \<Rightarrow> real \<times> rng" where
  "blend_forums target_name usage g =
     (let (acc, g') =
            fold (blend_step target_name) usage
              (\<lparr> positive = 0, negative = 0, total_weight = 0 \<rparr>, g)
      in (if total_weight acc > 0 then positive acc / total_weight acc else 0.5, g'))"

record forum_breakdown =
  youth_ptt :: real
  youth_dcard :: real
  middle_mobile01 :: real
  elder_news_sentiment :: real

record sentiment_result =
  positive_emotion_ratio :: real
  mobilization_modifier :: real
  mobilization_strength :: real
  s1_youth_forum :: real
  s2_middle_forum :: real
  s3_elder_news :: real
  breakdown :: forum_breakdown
  dcard_positive :: real
  ptt_positive :: real
  final_support_rate :: real

text \<open>The fixed target name of the source reads "the current recall target". The
  subscripts into \<^verbatim>\<open>forum_usage\<close> are by keys that the table has.\<close>

definition current_target :: pystr where
  "current_target = [30070, 21069, 32631, 20813, 23565, 35937]"

definition ForumSentimentAgent_analyze ::
  "(pystr \<times> real) list \<Rightarrow> (pystr \<times> real) list \<Rightarrow> real \<Rightarrow> rng \<Rightarrow> sentiment_result \<times> rng"
  where
  "ForumSentimentAgent_analyze dcard_sentiment ptt_sentiment strength g =
     (let forum_usage = get_forum_usage_by_age;
          target_name = current_target;
          youth_usage = dict_get forum_usage (ascii ''youth'') [];
          middle_usage = dict_get forum_usage (ascii ''middle'') [];
          (s1, g1) = blend_forums target_name youth_usage g;
          (s2, g2) = blend_forums target_name middle_usage g1;
          (news_sentiment, g3) = crawl_news_sentiment target_name g2;
          s3 = positive_ratio news_sentiment;
          (factor, g4) = uniform 1.1 1.3 g3;
          modifier = (s1 * 0.4 + s2 * 0.35 + s3 * 0.25) * factor
      in (\<lparr> positive_emotion_ratio = (s1 + s2 + s3) / 3,
            mobilization_modifier = modifier,
            mobilization_strength = modifier,
            s1_youth_forum = s1,
            s2_middle_forum = s2,
            s3_elder_news = s3,
            breakdown =
              \<lparr> youth_ptt = dict_get youth_usage (ascii ''ptt'') 0,
                youth_dcard = dict_get youth_usage (ascii ''dcard'') 0,
                middle_mobile01 = dict_get middle_usage (ascii ''mobile01'') 0,
                elder_news_sentiment = s3 \<rparr>,
            dcard_positive = s1,
            ptt_positive = s2,
            final_support_rate = (s1 + s2 + s3) / 3 * modifier \<rparr>, g4))"

text \<open>The entries of the returned dictionary that hold a number, by key; the master
  agent reads the dictionary with \<^verbatim>\<open>get\<close>.\<close>

definition sentiment_items :: "sentiment_result \<Rightarrow> (pystr \<times> real) list" where
  "sentiment_items r =
    [(ascii ''positive_emotion_ratio'', positive_emotion_ratio r),
     (ascii ''mobilization_modifier'', mobilization_modifier r),
     (ascii ''mobilization_strength'', mobilization_strength r),
     (ascii ''s1_youth_forum'', s1_youth_forum r),
     (ascii ''s2_middle_forum'', s2_middle_forum r),
     (ascii ''s3_elder_news'', s3_elder_news r),
     (ascii ''dcard_positive'', dcard_positive r),
     (ascii ''ptt_positive'', ptt_positive r),
     (ascii ''final_support_rate'', final_support_rate r)]"

subsection \<open>MasterAnalysisAgent\<close>

text \<open>The keys of the intensity table are display names of recall targets, most of them
  a name followed by an annotation in parentheses; the default target reads "ordinary
  legislator".\<close>

definition intensity_map :: "(pystr \<times> real) list" where
  "intensity_map =
    [([38867, 22283, 29788, 32, 40, 50, 48, 50, 48, 24180, 32631, 20813, 25104, 21151, 41],
        1.8),
     ([26607, 25991, 21746, 32, 40, 21488, 21271, 24066, 38263, 41],
        1.6),
     ([32645, 26234, 24375, 32, 40, 21488, 21271, 24066, 31532, 49, 36984, 21312, 41],
        1.5),
     ([36249, 23569, 24247, 32, 40, 23186, 39636, 20154, 47, 25919, 27835, 20154, 29289, 41],
        1.4),
     ([40643, 22283, 26124, 32, 40, 50, 48, 49, 55, 24180, 32631, 20813, 22833, 25943, 41],
        1.3),
     ([38515, 26575, 24799, 32, 40, 50, 48, 50, 49, 24180, 32631, 20813, 25104, 21151, 41],
        1.2),
     ([26446, 24421, 31168, 32, 40, 21488, 21271, 24066, 31532, 50, 36984, 21312, 41],
        1.1),
     ([34083, 33836, 23433, 30456, 38364, 31435, 22996],
        1.1),
     ([37041, 33509, 33775, 32, 40, 26691, 22290, 24066, 31532, 54, 36984, 21312, 41],
        0.9),
     ([22320, 26041, 35696, 21729],
        0.8)]"

definition default_target :: pystr where
  "default_target = [19968, 33324, 31435, 22996]"

definition fuzzy_match :: "pystr \<Rightarrow> pystr \<Rightarrow> bool" where
  "fuzzy_match target key =
     list_ex (\<lambda>name. str_in name target) (filter (\<lambda>name. length name > 1) (str_split key))"

definition get_dynamic_political_intensity :: "pystr option \<Rightarrow> real" where
  "get_dynamic_political_intensity target_opt =
     (let target = (case target_opt of None \<Rightarrow> default_target | Some t \<Rightarrow> t)
      in case map_of intensity_map target of
           Some v \<Rightarrow> v
         | None \<Rightarrow>
             (case find (\<lambda>(key, v). fuzzy_match target key) intensity_map of
                Some (key, v) \<Rightarrow> v
              | None \<Rightarrow> 1.0))"

text \<open>The loop of \<^verbatim>\<open>_calculate_turnout\<close>: an age group adds its term when it is a key of
  all three coefficient dictionaries, and is passed over otherwise.\<close>

definition turnout_step ::
  "(pystr \<times> motivation_result) list \<Rightarrow> (pystr \<times> media_result) list
     \<Rightarrow> (pystr \<times> social_result) list \<Rightarrow> pystr \<times> real \<Rightarrow> real \<Rightarrow> real" where
  "turnout_step psychological media social item total_turnout =
     (let (age_group, share) = item
      in case map_of psychological age_group of
           None \<Rightarrow> total_turnout
         | Some p \<Rightarrow>
             (case map_of media age_group of
                None \<Rightarrow> total_turnout
              | Some m \<Rightarrow>
                  (case map_of social age_group of
                     None \<Rightarrow> total_turnout
                   | Some s \<Rightarrow>
                       total_turnout
                         + share / 100 * voting_intention p * media_coefficient m
                             * social_coefficient s)))"

definition total_turnout ::
  "(pystr \<times> real) list \<Rightarrow> (pystr \<times> motivation_result) list
     \<Rightarrow> (pystr \<times> media_result) list \<Rightarrow> (pystr \<times> social_result) list \<Rightarrow> real" where
  "total_turnout age_structure psychological media social =
     fold (turnout_step psychological media social) age_structure 0"

definition calculate_turnout ::
  "(pystr \<times> real) list \<Rightarrow> (pystr \<times> motivation_result) list
     \<Rightarrow> (pystr \<times> media_result) list \<Rightarrow> (pystr \<times> social_result) list
     \<Rightarrow> climate_result \<Rightarrow> regional_result \<Rightarrow> pystr option \<Rightarrow> real" where
  "calculate_turnout age_structure psychological media social climate regional target =
     (let T_weather = weather_coefficient climate;
          Adjustment_factor = adjustment_factor regional;
          political_intensity = get_dynamic_political_intensity target;
          final_turnout =
            total_turnout age_structure psychological media social
              * T_weather * Adjustment_factor * political_intensity * 100
      in max final_turnout 20)"

definition calculate_agreement :: "real \<Rightarrow> (pystr \<times> real) list \<Rightarrow> pystr option \<Rightarrow> real" where
  "calculate_agreement turnout_rate sentiment target =
     (let p_youth = 0.30;
          p_middle = 0.45;
          p_elder = 0.25;
          s1_youth = dict_get sentiment (ascii ''s1_youth_forum'') 0.5;
          s2_middle = dict_get sentiment (ascii ''s2_middle_forum'') 0.5;
          s3_elder = dict_get sentiment (ascii ''s3_elder_news'') 0.5;
          s_youth = s1_youth * 1.2;
          s_middle = s2_middle * 1.0;
          s_elder = s3_elder * 0.8;
          i_factor = get_dynamic_political_intensity target;
          base_agreement = p_youth * s_youth + p_middle * s_middle + p_elder * s_elder;
          final_agreement = base_agreement * i_factor * 100
      in min (max final_agreement 10) 90)"

text \<open>The reason is an f-string; it is modelled by the template chosen together with the
  numbers the template formats.\<close>

datatype reason =
    TurnoutBelowThreshold real
  | AgreementNotMajority real
  | ThresholdsMet real real

definition determine_recall_result :: "real \<Rightarrow> real \<Rightarrow> bool \<times> reason" where
  "determine_recall_result turnout agreement =
     (if turnout < 25 then (False, TurnoutBelowThreshold turnout)
      else if agreement \<le> 50 then (False, AgreementNotMajority agreement)
      else (True, ThresholdsMet turnout agreement))"

text \<open>The scenario dictionary: \<open>None\<close> stands for an absent key. The keys
  \<^verbatim>\<open>age_structure\<close> and \<^verbatim>\<open>recall_target\<close> are read by subscript, the others with
  \<^verbatim>\<open>get\<close> and a default. The field \<open>mobilization_strength_in\<close> is the key
  \<^verbatim>\<open>mobilization_strength\<close> of the scenario, a name that the sentiment result has too.\<close>

record scenario =
  age_structure :: "(pystr \<times> real) list option"
  recall_target :: "pystr option"
  political_context :: "(pystr \<times> real) list option"
  media_coverage :: "(pystr \<times> real) list option"
  forum_sentiment :: "(pystr \<times> real) list option"
  discussion_heat :: "real option"
  peer_pressure :: "real option"
  temperature :: "real option"
  rainfall :: "real option"
  weather_condition :: "pystr option"
  region :: "pystr option"
  historical_turnout :: "real option"
  mobilization_capacity :: "real option"
  dcard_sentiment :: "(pystr \<times> real) list option"
  ptt_sentiment :: "(pystr \<times> real) list option"
  mobilization_strength_in :: "real option"

record agent_results =
  psychological :: "(pystr \<times> motivation_result) list"
  media :: "(pystr \<times> media_result) list"
  social :: "(pystr \<times> social_result) list"
  climate :: climate_result
  regional :: regional_result
  sentiment :: sentiment_result

record prediction =
  predicted_turnout :: real
  predicted_agreement :: real
  will_pass :: bool
  reason :: reason
  results :: agent_results

text \<open>The part of \<^verbatim>\<open>predict\<close> after the five agents without randomness have returned.\<close>

definition combine ::
  "(pystr \<times> real) list \<Rightarrow> pystr \<Rightarrow> (pystr \<times> motivation_result) list
     \<Rightarrow> (pystr \<times> media_result) list \<Rightarrow> (pystr \<times> social_result) list
     \<Rightarrow> climate_result \<Rightarrow> regional_result \<Rightarrow> sentiment_result \<Rightarrow> prediction" where
  "combine ages target psychological_results media_results social_results climate_results
       regional_results sentiment_results =
     (let turnout =
            calculate_turnout ages psychological_results media_results social_results
              climate_results regional_results (Some target);
          agreement =
            calculate_agreement turnout (sentiment_items sentiment_results) (Some target);
          (pass, why) = determine_recall_result turnout agreement
      in \<lparr> predicted_turnout = turnout,
           predicted_agreement = agreement,
           will_pass = pass,
           reason = why,
           results =
             \<lparr> psychological = psychological_results,
               media = media_results,
               social = social_results,
               climate = climate_results,
               regional = regional_results,
               sentiment = sentiment_results \<rparr> \<rparr>)"

definition predict :: "scenario \<Rightarrow> rng \<Rightarrow> (py_error + prediction) \<times> rng" where
  "predict scenario_data g =
     (case age_structure scenario_data of
        None \<Rightarrow> (Inl (KeyError (ascii ''age_structure'')), g)
      | Some ages \<Rightarrow>
     (case recall_target scenario_data of
        None \<Rightarrow> (Inl (KeyError (ascii ''recall_target'')), g)
      | Some target \<Rightarrow>
     (case PsychologicalMotivationAgent_analyze ages target
             (get_or (political_context scenario_data) []) of
        Inl e \<Rightarrow> (Inl e, g)
      | Inr psychological_results \<Rightarrow>
     (case MediaEnvironmentAgent_analyze ages target
             (get_or (media_coverage scenario_data) []) of
        Inl e \<Rightarrow> (Inl e, g)
      | Inr media_results \<Rightarrow>
     (case SocialAtmosphereAgent_analyze
             (get_or (forum_sentiment scenario_data) [])
             (get_or (discussion_heat scenario_data) 70)
             (get_or (peer_pressure scenario_data) 60) of
        Inl e \<Rightarrow> (Inl e, g)
      | Inr social_results \<Rightarrow>
          (let climate_results =
                 ClimateConditionAgent_analyze
                   (get_or (temperature scenario_data) 25)
                   (get_or (rainfall scenario_data) 0)
                   (get_or (weather_condition scenario_data) sunny);
               regional_results =
                 RegionalGeographyAgent_analyze
                   (get_or (region scenario_data) [])
                   (get_or (historical_turnout scenario_data) 55)
                   (get_or (mobilization_capacity scenario_data) 70);
               (sentiment_results, g') =
                 ForumSentimentAgent_analyze
                   (get_or (dcard_sentiment scenario_data) [(ascii ''positive'', 20)])
                   (get_or (ptt_sentiment scenario_data) [(ascii ''positive'', 30)])
                   (get_or (mobilization_strength_in scenario_data) 80) g
           in (Inr (combine ages target psychological_results media_results social_results
                      climate_results regional_results sentiment_results), g')))))))"

subsection \<open>Views of a prediction\<close>

text \<open>The agreement formula in the words of the specification, on the percent scale of
  the code: the age shares are looked up in the age structure that is passed in.\<close>

definition spec_agreement :: "(pystr \<times> real) list \<Rightarrow> sentiment_result \<Rightarrow> real \<Rightarrow> real" where
  "spec_agreement age_shares sb political_intensity =
     min (max ((dict_get age_shares youth_key 0 / 100 * (s1_youth_forum sb * 1.2)
                + dict_get age_shares middle_key 0 / 100 * (s2_middle_forum sb * 1.0)
                + dict_get age_shares elder_key 0 / 100 * (s3_elder_news sb * 0.8))
               * political_intensity * 100) 10) 90"

text \<open>A prediction without what the forum-sentiment agent contributes: the turnout and
  the results of the five other agents.\<close>

definition without_sentiment ::
  "prediction \<Rightarrow> real \<times> (pystr \<times> motivation_result) list \<times> (pystr \<times> media_result) list
     \<times> (pystr \<times> social_result) list \<times> climate_result \<times> regional_result" where
  "without_sentiment r =
     (predicted_turnout r, psychological (results r), media (results r), social (results r),
      climate (results r), regional (results r))"

subsection \<open>Example inputs\<close>

text \<open>A stream of draws that gives 1/2 for the 23 draws of a first call of \<^verbatim>\<open>predict\<close>
  and 0 afterwards.\<close>

definition two_phase :: "nat \<Rightarrow> real" where
  "two_phase n = (if n < 23 then 1 / 2 else 0)"

text \<open>A scenario for the recall target "Han Kuo-yu (recalled in 2020)", a key of the
  intensity table, in Kaohsiung City, with age shares 30/45/25; and the same scenario with
  age shares 50/30/20.\<close>

definition han_target :: pystr where
  "han_target = [38867, 22283, 29788, 32, 40, 50, 48, 50, 48, 24180, 32631, 20813, 25104,
                 21151, 41]"

definition kaohsiung_city :: pystr where
  "kaohsiung_city = [39640, 38596, 24066]"

definition han_scenario :: scenario where
  "han_scenario =
     \<lparr> age_structure = Some [(youth_key, 30), (middle_key, 45), (elder_key, 25)],
       recall_target = Some han_target,
       political_context = None, media_coverage = None,
       forum_sentiment = Some [(ascii ''dcard_positive'', 60), (ascii ''ptt_positive'', 60)],
       discussion_heat = Some 90, peer_pressure = Some 80,
       temperature = Some 25, rainfall = Some 0, weather_condition = Some sunny,
       region = Some kaohsiung_city, historical_turnout = Some 65,
       mobilization_capacity = Some 90,
       dcard_sentiment = None, ptt_sentiment = None, mobilization_strength_in = None \<rparr>"

definition shifted_scenario :: scenario where
  "shifted_scenario =
     han_scenario \<lparr> age_structure := Some [(youth_key, 50), (middle_key, 30), (elder_key, 20)] \<rparr>"

section \<open>Properties\<close>

subsection \<open>Lookups and loops\<close>

lemma age_keys_distinct:
  "youth_key \<noteq> middle_key" "youth_key \<noteq> elder_key" "middle_key \<noteq> elder_key"
  "middle_key \<noteq> youth_key" "elder_key \<noteq> youth_key" "elder_key \<noteq> middle_key"
  by (simp_all add: youth_key_def middle_key_def elder_key_def)

lemma base_params_keys: "map fst (get_base_params t) = age_groups"
  by (simp add: get_base_params_def base_table_def age_groups_def)

lemma media_weights_keys: "map fst media_weights = age_groups"
  by (simp add: media_weights_def age_groups_def)

lemma dict_item_Inr: "k \<in> set (map fst d) \<Longrightarrow> \<exists>v. dict_item d k = Inr v"
  by (cases "map_of d k") (auto simp: dict_item_def map_of_eq_None_iff)

lemma dict_item_Inl: "k \<notin> set (map fst d) \<Longrightarrow> dict_item d k = Inl (KeyError k)"
proof -
  assume "k \<notin> set (map fst d)"
  then have "map_of d k = None" by (simp add: map_of_eq_None_iff)
  then show ?thesis by (simp add: dict_item_def)
qed

lemma psychological_loop_total:
  "set (map fst a) \<subseteq> set (map fst bp)
     \<Longrightarrow> \<exists>r. psychological_loop bp a = Inr r \<and> map fst r = map fst a"
proof (induction a)
  case Nil
  then show ?case by simp
next
  case (Cons x a)
  obtain k pct where x: "x = (k, pct)" by (cases x)
  from Cons.prems x have "k \<in> set (map fst bp)" by simp
  then obtain p where p: "dict_item bp k = Inr p" using dict_item_Inr by blast
  from Cons obtain r where "psychological_loop bp a = Inr r" "map fst r = map fst a" by auto
  with p x show ?case by simp
qed

lemma psychological_loop_raises:
  "find (\<lambda>k. k \<notin> set (map fst bp)) (map fst a) = Some k
     \<Longrightarrow> psychological_loop bp a = Inl (KeyError k)"
proof (induction a)
  case Nil
  then show ?case by simp
next
  case (Cons x a)
  obtain k' pct where x: "x = (k', pct)" by (cases x)
  show ?case
  proof (cases "k' \<in> set (map fst bp)")
    case True
    then obtain p where p: "dict_item bp k' = Inr p" using dict_item_Inr by blast
    from True Cons.prems x have "find (\<lambda>k. k \<notin> set (map fst bp)) (map fst a) = Some k" by simp
    then have "psychological_loop bp a = Inl (KeyError k)" by (rule Cons.IH)
    with p x show ?thesis by simp
  next
    case False
    with Cons.prems x have "k = k'" by simp
    with False x show ?thesis by (simp add: dict_item_Inl)
  qed
qed

lemma media_loop_total:
  "set ks \<subseteq> set (map fst media_weights)
     \<Longrightarrow> \<exists>r. media_loop b ks = Inr r \<and> map fst r = ks"
proof (induction ks)
  case Nil
  then show ?case by simp
next
  case (Cons k ks)
  then have "k \<in> set (map fst media_weights)" by simp
  then obtain w where w: "dict_item media_weights k = Inr w" using dict_item_Inr by blast
  from Cons obtain r where "media_loop b ks = Inr r" "map fst r = ks" by auto
  with w show ?case by simp
qed

lemma media_loop_raises:
  "find (\<lambda>k. k \<notin> set (map fst media_weights)) ks = Some k
     \<Longrightarrow> media_loop b ks = Inl (KeyError k)"
proof (induction ks)
  case Nil
  then show ?case by simp
next
  case (Cons k' ks)
  show ?case
  proof (cases "k' \<in> set (map fst media_weights)")
    case True
    then obtain w where w: "dict_item media_weights k' = Inr w" using dict_item_Inr by blast
    from True Cons.prems have "find (\<lambda>k. k \<notin> set (map fst media_weights)) ks = Some k" by simp
    then have "media_loop b ks = Inl (KeyError k)" by (rule Cons.IH)
    with w show ?thesis by simp
  next
    case False
    with Cons.prems have "k = k'" by simp
    with False show ?thesis by (simp add: dict_item_Inl)
  qed
qed

lemma media_loop_bounds:
  "media_loop b ks = Inr r \<Longrightarrow> (k, m) \<in> set r
     \<Longrightarrow> 0.5 \<le> media_coefficient m \<and> media_coefficient m \<le> 1.5"
proof (induction ks arbitrary: r)
  case Nil
  then show ?case by simp
next
  case (Cons k' ks)
  then show ?case
    by (auto simp: media_entry_def split: sum.splits)
qed

lemma social_analyze_eq:
  "SocialAtmosphereAgent_analyze fs h p =
     Inr [(youth_key, social_entry (calculate_sentiment_score fs) (calculate_heat_multiplier h)
                        (calculate_pressure_factor p) 0.3),
          (middle_key, social_entry (calculate_sentiment_score fs) (calculate_heat_multiplier h)
                        (calculate_pressure_factor p) 0.25),
          (elder_key, social_entry (calculate_sentiment_score fs) (calculate_heat_multiplier h)
                        (calculate_pressure_factor p) 0.2)]"
  by (simp add: SocialAtmosphereAgent_analyze_def age_groups_def sensitivity_map_def
      dict_item_def age_keys_distinct)

lemma social_entry_bounds:
  "0.5 \<le> social_coefficient (social_entry ss hm pf sens)"
  "social_coefficient (social_entry ss hm pf sens) \<le> 1.5"
  by (simp_all add: social_entry_def max_def min_def)

lemma social_entry_mono:
  assumes "0 \<le> ss" "0 \<le> pf" "0 \<le> sens" "hm1 \<le> hm2"
  shows "social_coefficient (social_entry ss hm1 pf sens)
           \<le> social_coefficient (social_entry ss hm2 pf sens)"
proof -
  have "ss * hm1 \<le> ss * hm2" using assms by (simp add: mult_left_mono)
  then have "ss * hm1 * pf \<le> ss * hm2 * pf" using assms by (simp add: mult_right_mono)
  then have "ss * hm1 * pf * sens \<le> ss * hm2 * pf * sens"
    using assms by (simp add: mult_right_mono)
  then show ?thesis by (simp add: social_entry_def)
qed

lemma weather_floor:
  "0.5 \<le> weather_coefficient (ClimateConditionAgent_analyze temp rain label)"
  by (simp add: ClimateConditionAgent_analyze_def)

lemma weather_upper:
  "weather_coefficient (ClimateConditionAgent_analyze temp rain label) \<le> 1.0"
proof -
  have t: "temperature_step temp 1.0 \<le> 1.0" by (simp add: temperature_step_def)
  have r: "\<And>x. rainfall_step rain x \<le> x" by (simp add: rainfall_step_def)
  have c: "\<And>x. condition_step label x \<le> x" by (simp add: condition_step_def)
  have "condition_step label (rainfall_step rain (temperature_step temp 1.0)) \<le> 1.0"
    using t r [of "temperature_step temp 1.0"]
      c [of "rainfall_step rain (temperature_step temp 1.0)"] by linarith
  then show ?thesis by (simp add: ClimateConditionAgent_analyze_def)
qed

lemma temperature_step_mild:
  "temp \<le> 35 \<Longrightarrow> temperature_step temp x =
     x - (if temp > 30 then 0.05 else if temp < 10 then 0.08 else 0)"
  by (simp add: temperature_step_def)

lemma rainfall_step_mild:
  "rain \<le> 15 \<Longrightarrow> rainfall_step rain x = x - (if rain > 5 then 0.1 else 0)"
  by (simp add: rainfall_step_def)

lemma condition_step_eq:
  "condition_step label x =
     x - (if label = typhoon \<or> label = rainstorm \<or> label = extreme_heat then 0.15 else 0)"
  by (simp add: condition_step_def)

lemma sentiment_score_nonneg:
  assumes "0 \<le> dict_get fs (ascii ''dcard_positive'') 20"
    and "0 \<le> dict_get fs (ascii ''ptt_positive'') 30"
  shows "0 \<le> calculate_sentiment_score fs"
  using assms by (simp add: calculate_sentiment_score_def Let_def)

lemma pressure_factor_nonneg: "0 \<le> p \<Longrightarrow> 0 \<le> calculate_pressure_factor p"
  by (simp add: calculate_pressure_factor_def)

lemma heat_multiplier_mono:
  "h1 \<le> h2 \<Longrightarrow> calculate_heat_multiplier h1 \<le> calculate_heat_multiplier h2"
  by (simp add: calculate_heat_multiplier_def min_def)

lemma turnout_step_eq:
  "turnout_step psy med soc (k, share) acc =
     (if k \<in> dom (map_of psy) \<and> k \<in> dom (map_of med) \<and> k \<in> dom (map_of soc)
      then acc + share / 100 * voting_intention (the (map_of psy k))
                   * media_coefficient (the (map_of med k))
                   * social_coefficient (the (map_of soc k))
      else acc)"
  by (auto simp: turnout_step_def dom_def split: option.splits)

lemma fold_turnout_step:
  "fold (turnout_step psy med soc) ages acc =
     acc + sum_list (map (\<lambda>(k, share). share / 100 * voting_intention (the (map_of psy k))
                                  * media_coefficient (the (map_of med k))
                                  * social_coefficient (the (map_of soc k)))
             (filter (\<lambda>(k, share). k \<in> dom (map_of psy) \<and> k \<in> dom (map_of med)
                                   \<and> k \<in> dom (map_of soc)) ages))"
proof (induction ages arbitrary: acc)
  case Nil
  then show ?case by simp
next
  case (Cons x ages)
  obtain k share where x: "x = (k, share)" by (cases x)
  have "fold (turnout_step psy med soc) (x # ages) acc =
          fold (turnout_step psy med soc) ages (turnout_step psy med soc (k, share) acc)"
    by (simp add: x)
  also have "\<dots> = turnout_step psy med soc (k, share) acc
      + sum_list (map (\<lambda>(k, share). share / 100 * voting_intention (the (map_of psy k))
                                  * media_coefficient (the (map_of med k))
                                  * social_coefficient (the (map_of soc k)))
             (filter (\<lambda>(k, share). k \<in> dom (map_of psy) \<and> k \<in> dom (map_of med)
                                   \<and> k \<in> dom (map_of soc)) ages))"
    by (rule Cons.IH)
  finally show ?case
    by (simp add: x turnout_step_eq)
qed

subsection \<open>The forum-sentiment agent in closed form\<close>

lemma forum_bias:
  "dict_get forum_characteristics (ascii ''ptt'') dflt
     = \<lparr> negativity_bias = 1.2, forum_volatility = 1.3 \<rparr>"
  "dict_get forum_characteristics (ascii ''dcard'') dflt
     = \<lparr> negativity_bias = 0.9, forum_volatility = 1.1 \<rparr>"
  "dict_get forum_characteristics (ascii ''mobile01'') dflt
     = \<lparr> negativity_bias = 1.0, forum_volatility = 0.8 \<rparr>"
  by (simp_all add: dict_get_def forum_characteristics_def ascii_def)

lemma crawl_forum_eq:
  "crawl_forum_sentiment tn forum (f, n) =
     (\<lparr> positive_ratio =
          max 0.1 (min 0.9 ((0.3 + 0.4 * f n) /
             negativity_bias (dict_get forum_characteristics forum
                               \<lparr> negativity_bias = 1.2, forum_volatility = 1.3 \<rparr>))),
        negative_ratio =
          1 - max 0.1 (min 0.9 ((0.3 + 0.4 * f n) /
             negativity_bias (dict_get forum_characteristics forum
                               \<lparr> negativity_bias = 1.2, forum_volatility = 1.3 \<rparr>))),
        sample_size = 50 + \<lfloor>f (n + 1) * 151\<rfloor>,
        volatility = forum_volatility (dict_get forum_characteristics forum
                               \<lparr> negativity_bias = 1.2, forum_volatility = 1.3 \<rparr>) \<rparr>,
      (f, n + 2))"
  by (simp add: crawl_forum_sentiment_def uniform_def randint_def random_random_def Let_def)

lemma blend_step_eq:
  "blend_step tn (forum, w) (acc, (f, n)) =
     (\<lparr> positive = positive acc
          + max 0.1 (min 0.9 ((0.3 + 0.4 * f n) /
             negativity_bias (dict_get forum_characteristics forum
                               \<lparr> negativity_bias = 1.2, forum_volatility = 1.3 \<rparr>))) * w,
        negative = negative acc
          + (1 - max 0.1 (min 0.9 ((0.3 + 0.4 * f n) /
             negativity_bias (dict_get forum_characteristics forum
                               \<lparr> negativity_bias = 1.2, forum_volatility = 1.3 \<rparr>)))) * w,
        total_weight = total_weight acc + w \<rparr>,
      (f, n + 2))"
  by (simp add: blend_step_def crawl_forum_eq)

lemma blend_forums_eq:
  "blend_forums tn [(ascii ''ptt'', w1), (ascii ''dcard'', w2), (ascii ''mobile01'', w3)] (f, n) =
     (if w1 + w2 + w3 > 0
      then (max 0.1 (min 0.9 ((0.3 + 0.4 * f n) / 1.2)) * w1
            + max 0.1 (min 0.9 ((0.3 + 0.4 * f (n + 2)) / 0.9)) * w2
            + max 0.1 (min 0.9 ((0.3 + 0.4 * f (n + 4)) / 1.0)) * w3) / (w1 + w2 + w3)
      else 0.5,
      (f, n + 6))"
  by (simp add: blend_forums_def blend_step_eq forum_bias add.assoc
      del: add_2_eq_Suc add_2_eq_Suc')

lemma news_step_eq:
  "news_step source (tot, (f, n)) =
     (\<lparr> total_positive = total_positive tot
          + (source_bias source - 0.1 + 0.2 * f n) * real_of_int (20 + \<lfloor>f (n + 1) * 61\<rfloor>),
        total_negative = total_negative tot
          + (1 - (source_bias source - 0.1 + 0.2 * f n)) * real_of_int (20 + \<lfloor>f (n + 1) * 61\<rfloor>),
        total_samples = total_samples tot + (20 + \<lfloor>f (n + 1) * 61\<rfloor>) \<rparr>,
      (f, n + 2))"
  by (simp add: news_step_def uniform_def randint_def random_random_def Let_def)

lemma source_biases:
  "source_bias liberty_times = 0.6" "source_bias united_daily = 0.4"
  "source_bias china_times = 0.4" "source_bias apple_daily = 0.6"
  "source_bias (ascii ''ETtoday'') = 0.5"
  by (simp_all add: source_bias_def liberty_times_def united_daily_def china_times_def
      apple_daily_def ascii_def)

lemma crawl_news_state:
  "snd (crawl_news_sentiment tn (f, n)) = (f, n + 10)"
  by (simp add: crawl_news_sentiment_def news_sources_def news_step_eq Let_def add.assoc
      del: add_2_eq_Suc add_2_eq_Suc')

lemma analyze_eq:
  "ForumSentimentAgent_analyze d p st (f, n) =
     (let s1 = fst (blend_forums current_target
                      [(ascii ''ptt'', 0.45), (ascii ''dcard'', 0.35), (ascii ''mobile01'', 0.20)]
                      (f, n));
          s2 = fst (blend_forums current_target
                      [(ascii ''ptt'', 0.25), (ascii ''dcard'', 0.15), (ascii ''mobile01'', 0.60)]
                      (f, n + 6));
          s3 = positive_ratio (fst (crawl_news_sentiment current_target (f, n + 12)));
          modifier = (s1 * 0.4 + s2 * 0.35 + s3 * 0.25) * (1.1 + 0.2 * f (n + 22))
      in (\<lparr> positive_emotion_ratio = (s1 + s2 + s3) / 3,
            mobilization_modifier = modifier,
            mobilization_strength = modifier,
            s1_youth_forum = s1,
            s2_middle_forum = s2,
            s3_elder_news = s3,
            breakdown = \<lparr> youth_ptt = 0.45, youth_dcard = 0.35, middle_mobile01 = 0.60,
                          elder_news_sentiment = s3 \<rparr>,
            dcard_positive = s1,
            ptt_positive = s2,
            final_support_rate = (s1 + s2 + s3) / 3 * modifier \<rparr>,
          (f, n + 23)))"
proof -
  have usage:
    "dict_get get_forum_usage_by_age (ascii ''youth'') [] =
       [(ascii ''ptt'', 0.45), (ascii ''dcard'', 0.35), (ascii ''mobile01'', 0.20)]"
    "dict_get get_forum_usage_by_age (ascii ''middle'') [] =
       [(ascii ''ptt'', 0.25), (ascii ''dcard'', 0.15), (ascii ''mobile01'', 0.60)]"
    by (simp_all add: dict_get_def get_forum_usage_by_age_def ascii_def)
  have inner:
    "dict_get [(ascii ''ptt'', 0.45), (ascii ''dcard'', 0.35), (ascii ''mobile01'', 0.20)]
       (ascii ''ptt'') (0::real) = 0.45"
    "dict_get [(ascii ''ptt'', 0.45), (ascii ''dcard'', 0.35), (ascii ''mobile01'', 0.20)]
       (ascii ''dcard'') (0::real) = 0.35"
    "dict_get [(ascii ''ptt'', 0.25), (ascii ''dcard'', 0.15), (ascii ''mobile01'', 0.60)]
       (ascii ''mobile01'') (0::real) = 0.60"
    by (simp_all add: dict_get_def ascii_def)
  have st1: "\<And>w1 w2 w3 m. snd (blend_forums current_target
         [(ascii ''ptt'', w1), (ascii ''dcard'', w2), (ascii ''mobile01'', w3)] (f, m)) = (f, m + 6)"
    by (simp add: blend_forums_eq)
  show ?thesis
    unfolding ForumSentimentAgent_analyze_def Let_def usage inner
    by (simp add: case_prod_beta st1 crawl_news_state uniform_def random_random_def Let_def
        add.assoc del: add_2_eq_Suc add_2_eq_Suc')
qed


lemma predict_success:
  assumes "age_structure s = Some ages" and "recall_target s = Some target"
    and "PsychologicalMotivationAgent_analyze ages target (get_or (political_context s) [])
           = Inr psy"
    and "MediaEnvironmentAgent_analyze ages target (get_or (media_coverage s) []) = Inr med"
  shows "predict s g =
     (Inr (combine ages target psy med
             [(youth_key, social_entry (calculate_sentiment_score (get_or (forum_sentiment s) []))
                 (calculate_heat_multiplier (get_or (discussion_heat s) 70))
                 (calculate_pressure_factor (get_or (peer_pressure s) 60)) 0.3),
              (middle_key, social_entry (calculate_sentiment_score (get_or (forum_sentiment s) []))
                 (calculate_heat_multiplier (get_or (discussion_heat s) 70))
                 (calculate_pressure_factor (get_or (peer_pressure s) 60)) 0.25),
              (elder_key, social_entry (calculate_sentiment_score (get_or (forum_sentiment s) []))
                 (calculate_heat_multiplier (get_or (discussion_heat s) 70))
                 (calculate_pressure_factor (get_or (peer_pressure s) 60)) 0.2)]
             (ClimateConditionAgent_analyze (get_or (temperature s) 25)
                (get_or (rainfall s) 0) (get_or (weather_condition s) sunny))
             (RegionalGeographyAgent_analyze (get_or (region s) [])
                (get_or (historical_turnout s) 55) (get_or (mobilization_capacity s) 70))
             (fst (ForumSentimentAgent_analyze
                     (get_or (dcard_sentiment s) [(ascii ''positive'', 20)])
                     (get_or (ptt_sentiment s) [(ascii ''positive'', 30)])
                     (get_or (mobilization_strength_in s) 80) g))),
      snd (ForumSentimentAgent_analyze
             (get_or (dcard_sentiment s) [(ascii ''positive'', 20)])
             (get_or (ptt_sentiment s) [(ascii ''positive'', 30)])
             (get_or (mobilization_strength_in s) 80) g))"
  using assms
  by (simp add: predict_def social_analyze_eq Let_def case_prod_beta)

lemma combine_fields:
  "predicted_turnout (combine ages target psy med soc cl rg sent)
     = calculate_turnout ages psy med soc cl rg (Some target)"
  "predicted_agreement (combine ages target psy med soc cl rg sent)
     = calculate_agreement (calculate_turnout ages psy med soc cl rg (Some target))
         (sentiment_items sent) (Some target)"
  "psychological (results (combine ages target psy med soc cl rg sent)) = psy"
  "media (results (combine ages target psy med soc cl rg sent)) = med"
  "social (results (combine ages target psy med soc cl rg sent)) = soc"
  "climate (results (combine ages target psy med soc cl rg sent)) = cl"
  "regional (results (combine ages target psy med soc cl rg sent)) = rg"
  "sentiment (results (combine ages target psy med soc cl rg sent)) = sent"
  by (simp_all add: combine_def Let_def case_prod_beta)

lemma sentiment_items_get:
  "dict_get (sentiment_items r) (ascii ''s1_youth_forum'') d = s1_youth_forum r"
  "dict_get (sentiment_items r) (ascii ''s2_middle_forum'') d = s2_middle_forum r"
  "dict_get (sentiment_items r) (ascii ''s3_elder_news'') d = s3_elder_news r"
  by (simp_all add: dict_get_def sentiment_items_def ascii_def)

lemma turnout_floor: "20 \<le> calculate_turnout ages psy med soc cl rg tg"
  by (simp add: calculate_turnout_def Let_def)

lemma agreement_range:
  "10 \<le> calculate_agreement t sent tg" "calculate_agreement t sent tg \<le> 90"
  by (simp_all add: calculate_agreement_def Let_def)

subsection \<open>The example scenario\<close>

lemma han_intensity: "get_dynamic_political_intensity (Some han_target) = 1.8"
  by (simp add: get_dynamic_political_intensity_def intensity_map_def han_target_def)

lemma han_psych:
  "PsychologicalMotivationAgent_analyze ((youth_key, a) # (middle_key, b) # (elder_key, c) # [])
     han_target ctx =
   Inr [(youth_key, \<lparr> political_interest = 0.72, political_efficacy = 0.7,
                       economic_motivation = 0.8, percentage = a, voting_intention = 0.4032 \<rparr>),
        (middle_key, \<lparr> political_interest = 0.96, political_efficacy = 0.6,
                        economic_motivation = 0.9, percentage = b, voting_intention = 0.5184 \<rparr>),
        (elder_key, \<lparr> political_interest = 1.08, political_efficacy = 0.5,
                       economic_motivation = 0.7, percentage = c, voting_intention = 0.378 \<rparr>)]"
proof -
  have "any_in [han_kuo_yu, ko_wen_je, lo_chih_chiang] han_target"
    by (simp add: any_in_def han_kuo_yu_def han_target_def)
  then show ?thesis
    by (simp add: PsychologicalMotivationAgent_analyze_def get_base_params_def base_table_def
        dict_item_def age_keys_distinct)
qed

lemma han_media:
  "MediaEnvironmentAgent_analyze ((youth_key, a) # (middle_key, b) # (elder_key, c) # [])
     han_target cov =
   Inr [(youth_key, \<lparr> media_coefficient = 1.013,
                       dominant_platforms = [ascii ''IG'', ascii ''TikTok''] \<rparr>),
        (middle_key, \<lparr> media_coefficient = 0.9725,
                        dominant_platforms = [ascii ''Facebook'', ascii ''LINE''] \<rparr>),
        (elder_key, \<lparr> media_coefficient = 0.941,
                       dominant_platforms = [ascii ''TV'', ascii ''Newspaper''] \<rparr>)]"
proof -
  have "any_in [han_kuo_yu, ko_wen_je, lo_chih_chiang, jaw_shaw_kong] han_target"
    by (simp add: any_in_def han_kuo_yu_def han_target_def)
  then have att: "get_media_attention han_target = 1.5"
    by (simp add: get_media_attention_def)
  have mult: "get_platform_multiplier (ascii ''IG'') = 1.1"
     "get_platform_multiplier (ascii ''TikTok'') = 1.2"
     "get_platform_multiplier (ascii ''YouTube'') = 1.0"
     "get_platform_multiplier (ascii ''PTT'') = 1.3"
     "get_platform_multiplier (ascii ''Facebook'') = 1.1"
     "get_platform_multiplier (ascii ''LINE'') = 0.9"
     "get_platform_multiplier (ascii ''TV'') = 1.2"
     "get_platform_multiplier (ascii ''News'') = 1.0"
     "get_platform_multiplier (ascii ''Newspaper'') = 0.8"
     "get_platform_multiplier (ascii ''Radio'') = 0.7"
     "get_platform_multiplier (ascii ''Word'') = 0.8"
    by (simp_all add: get_platform_multiplier_def multipliers_def dict_get_def ascii_def)
  show ?thesis
    by (simp add: MediaEnvironmentAgent_analyze_def att media_weights_def dict_item_def
        age_keys_distinct media_entry_def platform_sum_def mult)
qed

lemma han_social:
  "calculate_sentiment_score [(ascii ''dcard_positive'', 60), (ascii ''ptt_positive'', 60)] = 1.1"
  "calculate_heat_multiplier 90 = 1.5"
  "calculate_pressure_factor 80 = 1.3"
  by (simp_all add: calculate_sentiment_score_def dict_get_def ascii_def
      calculate_heat_multiplier_def calculate_pressure_factor_def)

lemma han_weather: "weather_coefficient (ClimateConditionAgent_analyze 25 0 sunny) = 1"
  by (simp add: ClimateConditionAgent_analyze_def temperature_step_def rainfall_step_def
      condition_step_def sunny_def typhoon_def rainstorm_def extreme_heat_def)

lemma han_regional:
  "adjustment_factor (RegionalGeographyAgent_analyze kaohsiung_city 65 90) = 1.1"
proof -
  have "get_region_multiplier kaohsiung_city = 1.06"
    by (simp add: get_region_multiplier_def region_factors_def kaohsiung_city_def)
  then show ?thesis
    by (simp add: RegionalGeographyAgent_analyze_def historical_step_def Let_def)
qed

lemma han_predict:
  "predict (han_scenario \<lparr> age_structure :=
                Some ((youth_key, a) # (middle_key, b) # (elder_key, c) # []) \<rparr>) g =
     (Inr (combine [(youth_key, a), (middle_key, b), (elder_key, c)] han_target
        [(youth_key, \<lparr> political_interest = 0.72, political_efficacy = 0.7,
                       economic_motivation = 0.8, percentage = a, voting_intention = 0.4032 \<rparr>),
         (middle_key, \<lparr> political_interest = 0.96, political_efficacy = 0.6,
                        economic_motivation = 0.9, percentage = b, voting_intention = 0.5184 \<rparr>),
         (elder_key, \<lparr> political_interest = 1.08, political_efficacy = 0.5,
                       economic_motivation = 0.7, percentage = c, voting_intention = 0.378 \<rparr>)]
        [(youth_key, \<lparr> media_coefficient = 1.013,
                       dominant_platforms = [ascii ''IG'', ascii ''TikTok''] \<rparr>),
         (middle_key, \<lparr> media_coefficient = 0.9725,
                        dominant_platforms = [ascii ''Facebook'', ascii ''LINE''] \<rparr>),
         (elder_key, \<lparr> media_coefficient = 0.941,
                       dominant_platforms = [ascii ''TV'', ascii ''Newspaper''] \<rparr>)]
        [(youth_key, social_entry 1.1 1.5 1.3 0.3),
         (middle_key, social_entry 1.1 1.5 1.3 0.25),
         (elder_key, social_entry 1.1 1.5 1.3 0.2)]
        (ClimateConditionAgent_analyze 25 0 sunny)
        (RegionalGeographyAgent_analyze kaohsiung_city 65 90)
        (fst (ForumSentimentAgent_analyze [(ascii ''positive'', 20)] [(ascii ''positive'', 30)]
                80 g))),
      snd (ForumSentimentAgent_analyze [(ascii ''positive'', 20)] [(ascii ''positive'', 30)]
             80 g))"
proof -
  let ?s = "han_scenario \<lparr> age_structure :=
                Some ((youth_key, a) # (middle_key, b) # (elder_key, c) # []) \<rparr>"
  have a: "age_structure ?s = Some [(youth_key, a), (middle_key, b), (elder_key, c)]"
    and t: "recall_target ?s = Some han_target"
    by (simp_all add: han_scenario_def)
  have p: "PsychologicalMotivationAgent_analyze [(youth_key, a), (middle_key, b), (elder_key, c)]
             han_target (get_or (political_context ?s) []) = Inr
        [(youth_key, \<lparr> political_interest = 0.72, political_efficacy = 0.7,
                       economic_motivation = 0.8, percentage = a, voting_intention = 0.4032 \<rparr>),
         (middle_key, \<lparr> political_interest = 0.96, political_efficacy = 0.6,
                        economic_motivation = 0.9, percentage = b, voting_intention = 0.5184 \<rparr>),
         (elder_key, \<lparr> political_interest = 1.08, political_efficacy = 0.5,
                       economic_motivation = 0.7, percentage = c, voting_intention = 0.378 \<rparr>)]"
    by (rule han_psych)
  have m: "MediaEnvironmentAgent_analyze [(youth_key, a), (middle_key, b), (elder_key, c)]
             han_target (get_or (media_coverage ?s) []) = Inr
        [(youth_key, \<lparr> media_coefficient = 1.013,
                       dominant_platforms = [ascii ''IG'', ascii ''TikTok''] \<rparr>),
         (middle_key, \<lparr> media_coefficient = 0.9725,
                        dominant_platforms = [ascii ''Facebook'', ascii ''LINE''] \<rparr>),
         (elder_key, \<lparr> media_coefficient = 0.941,
                       dominant_platforms = [ascii ''TV'', ascii ''Newspaper''] \<rparr>)]"
    by (rule han_media)
  have rest: "get_or (forum_sentiment ?s) []
               = [(ascii ''dcard_positive'', 60), (ascii ''ptt_positive'', 60)]"
    "get_or (discussion_heat ?s) 70 = 90"
    "get_or (peer_pressure ?s) 60 = 80"
    "get_or (temperature ?s) 25 = 25"
    "get_or (rainfall ?s) 0 = 0"
    "get_or (weather_condition ?s) sunny = sunny"
    "get_or (region ?s) [] = kaohsiung_city"
    "get_or (historical_turnout ?s) 55 = 65"
    "get_or (mobilization_capacity ?s) 70 = 90"
    "get_or (dcard_sentiment ?s) [(ascii ''positive'', 20)] = [(ascii ''positive'', 20)]"
    "get_or (ptt_sentiment ?s) [(ascii ''positive'', 30)] = [(ascii ''positive'', 30)]"
    "get_or (mobilization_strength_in ?s) 80 = 80"
    by (simp_all add: han_scenario_def get_or_def)
  show ?thesis
    using predict_success [OF a t p m, of g]
    by (simp only: rest han_social)
qed

lemma han_scenario_ages:
  "han_scenario = han_scenario \<lparr> age_structure :=
                    Some ((youth_key, 30) # (middle_key, 45) # (elder_key, 25) # []) \<rparr>"
  by (simp add: han_scenario_def)

lemma han_turnout:
  "predicted_turnout (projr (fst (predict han_scenario g))) = 108.00499176324"
  by (subst han_scenario_ages)
     (simp add: han_predict combine_fields calculate_turnout_def total_turnout_def
      turnout_step_def age_keys_distinct han_weather han_regional han_intensity
      social_entry_def Let_def)

lemma fixed_shares:
  "dict_get [(youth_key, 30), (middle_key, 45), (elder_key, 25)] youth_key (0::real) = 30"
  "dict_get [(youth_key, 30), (middle_key, 45), (elder_key, 25)] middle_key (0::real) = 45"
  "dict_get [(youth_key, 30), (middle_key, 45), (elder_key, 25)] elder_key (0::real) = 25"
  by (simp_all add: dict_get_def age_keys_distinct)

lemma agreement_eq:
  "calculate_agreement t (sentiment_items sb) tg =
     spec_agreement [(youth_key, 30), (middle_key, 45), (elder_key, 25)] sb
       (get_dynamic_political_intensity tg)"
  by (simp add: calculate_agreement_def spec_agreement_def sentiment_items_get Let_def
      fixed_shares)

lemma predict_InrD:
  assumes "predict s g = (Inr r, g')"
  shows "\<exists>ages target psy med soc cl rg sent.
           recall_target s = Some target \<and> r = combine ages target psy med soc cl rg sent"
  using assms
  by (auto simp: predict_def Let_def case_prod_beta split: option.splits sum.splits) blast

lemma first_call:
  "fst (blend_forums current_target
          [(ascii ''ptt'', 0.45), (ascii ''dcard'', 0.35), (ascii ''mobile01'', 0.20)]
          (two_phase, 0)) = 347 / 720"
  "fst (blend_forums current_target
          [(ascii ''ptt'', 0.25), (ascii ''dcard'', 0.15), (ascii ''mobile01'', 0.60)]
          (two_phase, 6)) = 39 / 80"
  "positive_ratio (fst (crawl_news_sentiment current_target (two_phase, 12))) = 1 / 2"
  by (simp_all add: blend_forums_eq two_phase_def crawl_news_sentiment_def news_sources_def
      news_step_eq source_biases Let_def)

lemma second_call:
  "fst (blend_forums current_target
          [(ascii ''ptt'', 0.45), (ascii ''dcard'', 0.35), (ascii ''mobile01'', 0.20)]
          (two_phase, 23)) = 347 / 1200"
  "fst (blend_forums current_target
          [(ascii ''ptt'', 0.25), (ascii ''dcard'', 0.15), (ascii ''mobile01'', 0.60)]
          (two_phase, 29)) = 117 / 400"
  "positive_ratio (fst (crawl_news_sentiment current_target (two_phase, 35))) = 2 / 5"
  by (simp_all add: blend_forums_eq two_phase_def crawl_news_sentiment_def news_sources_def
      news_step_eq source_biases Let_def)

lemma han_sentiment_first:
  "s1_youth_forum (fst (ForumSentimentAgent_analyze d p st (two_phase, 0))) = 347 / 720"
  "s2_middle_forum (fst (ForumSentimentAgent_analyze d p st (two_phase, 0))) = 39 / 80"
  "s3_elder_news (fst (ForumSentimentAgent_analyze d p st (two_phase, 0))) = 1 / 2"
  using first_call by (simp_all add: analyze_eq Let_def)

lemma han_sentiment_second:
  "s1_youth_forum (fst (ForumSentimentAgent_analyze d p st (two_phase, 23))) = 347 / 1200"
  "s2_middle_forum (fst (ForumSentimentAgent_analyze d p st (two_phase, 23))) = 117 / 400"
  "s3_elder_news (fst (ForumSentimentAgent_analyze d p st (two_phase, 23))) = 2 / 5"
  using second_call by (simp_all add: analyze_eq Let_def)

lemma analyze_state:
  "snd (ForumSentimentAgent_analyze d p st (f, n)) = (f, n + 23)"
  by (simp add: analyze_eq Let_def)

lemma han_returns: "\<not> isl (fst (predict han_scenario g))"
  by (subst han_scenario_ages) (simp add: han_predict)

lemma han_state: "snd (predict han_scenario (two_phase, 0)) = (two_phase, 23)"
  by (subst han_scenario_ages) (simp add: han_predict analyze_state)

lemma han_agreement_first:
  "predicted_agreement (projr (fst (predict han_scenario (two_phase, 0)))) = 35487 / 400"
  by (subst han_scenario_ages)
     (simp add: han_predict combine_fields agreement_eq spec_agreement_def fixed_shares
        han_sentiment_first han_intensity)

lemma han_agreement_second:
  "predicted_agreement (projr (fst (predict han_scenario (two_phase, 23)))) = 113661 / 2000"
  by (subst han_scenario_ages)
     (simp add: han_predict combine_fields agreement_eq spec_agreement_def fixed_shares
        han_sentiment_second han_intensity)

subsection \<open>The verdict\<close>


subsection \<open>The weather coefficient\<close>

text \<open>
  C2 (as stated, refuted). At 38 degrees, 20 mm of rain and the label "typhoon" the weather
  coefficient is 0.7, not 0.5: the test \<open>temperature > 30\<close> is tried before
  \<open>temperature > 35\<close> and \<open>rainfall > 5\<close> before \<open>rainfall > 15\<close>, so 0.05, 0.1 and
  0.15 are subtracted.
\<close>

theorem weather_scenario_c:
  "weather_coefficient (ClimateConditionAgent_analyze 38 20 typhoon) = 0.7
   \<and> weather_coefficient (ClimateConditionAgent_analyze 38 20 typhoon) \<noteq> 0.5"
  by (simp add: ClimateConditionAgent_analyze_def temperature_step_def rainfall_step_def
      condition_step_def)

text \<open>
  C2 (amended). The weather coefficient is never below 0.5. For a temperature of at most
  35 and a rainfall of at most 15 it is 1.0 minus 0.05 when the temperature is above 30,
  minus 0.08 when the temperature is below 10, minus 0.10 when the rainfall is above 5,
  minus 0.15 when the label is one of typhoon, rainstorm and extreme heat, floored at 0.5.
\<close>

theorem weather_penalties:
  "0.5 \<le> weather_coefficient (ClimateConditionAgent_analyze temp rain label)
   \<and> (temp \<le> 35 \<and> rain \<le> 15 \<longrightarrow>
        weather_coefficient (ClimateConditionAgent_analyze temp rain label) =
          max (1.0 - (if temp > 30 then 0.05 else if temp < 10 then 0.08 else 0)
                   - (if rain > 5 then 0.1 else 0)
                   - (if label = typhoon \<or> label = rainstorm \<or> label = extreme_heat
                      then 0.15 else 0))
              0.5)"
proof (intro conjI impI)
  show "0.5 \<le> weather_coefficient (ClimateConditionAgent_analyze temp rain label)"
    by (rule weather_floor)
next
  assume a: "temp \<le> 35 \<and> rain \<le> 15"
  then have "temp \<le> 35" "rain \<le> 15" by simp_all
  then show "weather_coefficient (ClimateConditionAgent_analyze temp rain label) =
          max (1.0 - (if temp > 30 then 0.05 else if temp < 10 then 0.08 else 0)
                   - (if rain > 5 then 0.1 else 0)
                   - (if label = typhoon \<or> label = rainstorm \<or> label = extreme_heat
                      then 0.15 else 0))
              0.5"
    unfolding ClimateConditionAgent_analyze_def Let_def
    by (simp only: temperature_step_mild rainfall_step_mild condition_step_eq
        climate_result.simps)
qed

theorem weather_penalties_witness:
  "(32::real) \<le> 35 \<and> (10::real) \<le> 15
   \<and> weather_coefficient (ClimateConditionAgent_analyze 32 10 typhoon) = 0.7"
  using weather_penalties [of 32 10 typhoon]
  by simp

subsection \<open>Ranges of the coefficients\<close>

text \<open>
  C6. Every per-age-group coefficient that the media agent returns lies in \<open>[0.5, 1.5]\<close>;
  the social-atmosphere agent returns a coefficient for each of the three age groups, each
  in \<open>[0.5, 1.5]\<close>; the regional coefficient (under both of its keys) lies in
  \<open>[0.95, 1.1]\<close>; the weather coefficient lies in \<open>[0.5, 1.0]\<close>.
\<close>

theorem coefficient_ranges:
  "(MediaEnvironmentAgent_analyze ages target coverage = Inr ms
      \<longrightarrow> (\<forall>(k, m) \<in> set ms. 0.5 \<le> media_coefficient m \<and> media_coefficient m \<le> 1.5))
   \<and> (\<exists>ss. SocialAtmosphereAgent_analyze fs heat pressure = Inr ss
          \<and> map fst ss = age_groups
          \<and> (\<forall>(k, s) \<in> set ss. 0.5 \<le> social_coefficient s \<and> social_coefficient s \<le> 1.5))
   \<and> 0.95 \<le> regional_coefficient
               (RegionalGeographyAgent_analyze reg hist capacity)
   \<and> regional_coefficient
         (RegionalGeographyAgent_analyze reg hist capacity) \<le> 1.1
   \<and> 0.95 \<le> adjustment_factor
               (RegionalGeographyAgent_analyze reg hist capacity)
   \<and> adjustment_factor
         (RegionalGeographyAgent_analyze reg hist capacity) \<le> 1.1
   \<and> 0.5 \<le> weather_coefficient (ClimateConditionAgent_analyze temp rain label)
   \<and> weather_coefficient (ClimateConditionAgent_analyze temp rain label) \<le> 1.0"
proof -
  have media: "MediaEnvironmentAgent_analyze ages target coverage = Inr ms
      \<longrightarrow> (\<forall>(k, m) \<in> set ms. 0.5 \<le> media_coefficient m \<and> media_coefficient m \<le> 1.5)"
    unfolding MediaEnvironmentAgent_analyze_def using media_loop_bounds by blast
  have social: "\<exists>ss. SocialAtmosphereAgent_analyze fs heat pressure = Inr ss
          \<and> map fst ss = age_groups
          \<and> (\<forall>(k, s) \<in> set ss. 0.5 \<le> social_coefficient s \<and> social_coefficient s \<le> 1.5)"
  proof -
    let ?e = "social_entry (calculate_sentiment_score fs) (calculate_heat_multiplier heat)
                (calculate_pressure_factor pressure)"
    have b: "\<And>x. 0.5 \<le> social_coefficient (?e x) \<and> social_coefficient (?e x) \<le> 1.5"
      using social_entry_bounds by blast
    have "\<forall>(k, s) \<in> set [(youth_key, ?e 0.3), (middle_key, ?e 0.25), (elder_key, ?e 0.2)].
            0.5 \<le> social_coefficient s \<and> social_coefficient s \<le> 1.5"
      using b [of "0.3"] b [of "0.25"] b [of "0.2"] by simp
    moreover have "map fst [(youth_key, ?e 0.3), (middle_key, ?e 0.25), (elder_key, ?e 0.2)]
                     = age_groups"
      by (simp add: age_groups_def)
    ultimately show ?thesis
      unfolding social_analyze_eq by blast
  qed
  have regional:
    "0.95 \<le> regional_coefficient
               (RegionalGeographyAgent_analyze reg hist capacity)"
    "regional_coefficient
         (RegionalGeographyAgent_analyze reg hist capacity) \<le> 1.1"
    "0.95 \<le> adjustment_factor
               (RegionalGeographyAgent_analyze reg hist capacity)"
    "adjustment_factor
         (RegionalGeographyAgent_analyze reg hist capacity) \<le> 1.1"
    by (simp_all add: RegionalGeographyAgent_analyze_def Let_def)
  have weather:
    "0.5 \<le> weather_coefficient (ClimateConditionAgent_analyze temp rain label)"
    "weather_coefficient (ClimateConditionAgent_analyze temp rain label) \<le> 1.0"
    using weather_floor weather_upper by simp_all
  from media social regional weather show ?thesis by blast
qed

theorem coefficient_ranges_witness:
  "MediaEnvironmentAgent_analyze [(youth_key, 30), (middle_key, 45), (elder_key, 25)] han_kuo_yu []
     = Inr [(youth_key, \<lparr> media_coefficient = 1.013,
                           dominant_platforms = [ascii ''IG'', ascii ''TikTok''] \<rparr>),
            (middle_key, \<lparr> media_coefficient = 0.9725,
                            dominant_platforms = [ascii ''Facebook'', ascii ''LINE''] \<rparr>),
            (elder_key, \<lparr> media_coefficient = 0.941,
                           dominant_platforms = [ascii ''TV'', ascii ''Newspaper''] \<rparr>)]
   \<and> (0.5::real) \<le> 1.013 \<and> (1.013::real) \<le> 1.5"
proof -
  have m: "MediaEnvironmentAgent_analyze [(youth_key, 30), (middle_key, 45), (elder_key, 25)] han_kuo_yu []
     = Inr [(youth_key, \<lparr> media_coefficient = 1.013,
                           dominant_platforms = [ascii ''IG'', ascii ''TikTok''] \<rparr>),
            (middle_key, \<lparr> media_coefficient = 0.9725,
                            dominant_platforms = [ascii ''Facebook'', ascii ''LINE''] \<rparr>),
            (elder_key, \<lparr> media_coefficient = 0.941,
                           dominant_platforms = [ascii ''TV'', ascii ''Newspaper''] \<rparr>)]"
    by (simp add: MediaEnvironmentAgent_analyze_def get_media_attention_def any_in_def
        han_kuo_yu_def ko_wen_je_def lo_chih_chiang_def jaw_shaw_kong_def
        media_weights_def dict_item_def youth_key_def middle_key_def elder_key_def
        media_entry_def platform_sum_def get_platform_multiplier_def multipliers_def
        dict_get_def ascii_def)
  from coefficient_ranges [of "[(youth_key, 30), (middle_key, 45), (elder_key, 25)]" han_kuo_yu "[]" _ "[]" 70 60 "[]" 55 70 25 0 sunny] m
  show ?thesis by simp
qed

text \<open>
  C7. The social-atmosphere coefficient of every age group is monotone in the discussion
  heat: with the forum sentiment and the peer pressure fixed, the two sentiment
  percentages that are read and the peer pressure being non-negative as their ranges in
  the data model have them, a heat \<open>h1 \<le> h2\<close> gives coefficients at \<open>h1\<close> that are at most
  those at \<open>h2\<close>.
\<close>

theorem climate_monotone_in_heat:
  assumes "0 \<le> dict_get fs (ascii ''dcard_positive'') 20"
    and "0 \<le> dict_get fs (ascii ''ptt_positive'') 30"
    and "0 \<le> pressure" and "h1 \<le> h2"
  shows "\<exists>r1 r2. SocialAtmosphereAgent_analyze fs h1 pressure = Inr r1
           \<and> SocialAtmosphereAgent_analyze fs h2 pressure = Inr r2
           \<and> map fst r1 = age_groups \<and> map fst r2 = age_groups
           \<and> list_all2 (\<lambda>(k1, c1) (k2, c2). k1 = k2
                          \<and> social_coefficient c1 \<le> social_coefficient c2) r1 r2"
proof -
  let ?ss = "calculate_sentiment_score fs"
  let ?pf = "calculate_pressure_factor pressure"
  have ss: "0 \<le> ?ss" using assms(1,2) by (rule sentiment_score_nonneg)
  have pf: "0 \<le> ?pf" using assms(3) by (rule pressure_factor_nonneg)
  have hm: "calculate_heat_multiplier h1 \<le> calculate_heat_multiplier h2"
    using assms(4) by (rule heat_multiplier_mono)
  have m: "\<And>sens. 0 \<le> sens \<Longrightarrow>
      social_coefficient (social_entry ?ss (calculate_heat_multiplier h1) ?pf sens)
        \<le> social_coefficient (social_entry ?ss (calculate_heat_multiplier h2) ?pf sens)"
    using ss pf hm by (simp add: social_entry_mono)
  have "social_coefficient (social_entry ?ss (calculate_heat_multiplier h1) ?pf 0.3)
        \<le> social_coefficient (social_entry ?ss (calculate_heat_multiplier h2) ?pf 0.3)"
       "social_coefficient (social_entry ?ss (calculate_heat_multiplier h1) ?pf 0.25)
        \<le> social_coefficient (social_entry ?ss (calculate_heat_multiplier h2) ?pf 0.25)"
       "social_coefficient (social_entry ?ss (calculate_heat_multiplier h1) ?pf 0.2)
        \<le> social_coefficient (social_entry ?ss (calculate_heat_multiplier h2) ?pf 0.2)"
    by (rule m, simp)+
  then show ?thesis
    unfolding social_analyze_eq by (simp add: age_groups_def)
qed

theorem climate_monotone_in_heat_witness:
  "dict_get [(ascii ''dcard_positive'', 40::real), (ascii ''ptt_positive'', 50)]
       (ascii ''dcard_positive'') 20 = 40
   \<and> dict_get [(ascii ''dcard_positive'', 40::real), (ascii ''ptt_positive'', 50)]
       (ascii ''ptt_positive'') 30 = 50
   \<and> (0::real) \<le> 60 \<and> (10::real) \<le> 50
   \<and> (\<exists>r1 r2. SocialAtmosphereAgent_analyze
                  [(ascii ''dcard_positive'', 40), (ascii ''ptt_positive'', 50)] 10 60 = Inr r1
           \<and> SocialAtmosphereAgent_analyze
                  [(ascii ''dcard_positive'', 40), (ascii ''ptt_positive'', 50)] 50 60 = Inr r2
           \<and> map fst r1 = age_groups \<and> map fst r2 = age_groups
           \<and> list_all2 (\<lambda>(k1, c1) (k2, c2). k1 = k2
                          \<and> social_coefficient c1 \<le> social_coefficient c2) r1 r2)"
proof -
  have d: "dict_get [(ascii ''dcard_positive'', 40::real), (ascii ''ptt_positive'', 50)]
             (ascii ''dcard_positive'') 20 = 40"
    and p: "dict_get [(ascii ''dcard_positive'', 40::real), (ascii ''ptt_positive'', 50)]
             (ascii ''ptt_positive'') 30 = 50"
    by (simp_all add: dict_get_def ascii_def)
  have a: "0 \<le> dict_get [(ascii ''dcard_positive'', 40::real), (ascii ''ptt_positive'', 50)]
                  (ascii ''dcard_positive'') 20"
    and b: "0 \<le> dict_get [(ascii ''dcard_positive'', 40::real), (ascii ''ptt_positive'', 50)]
                  (ascii ''ptt_positive'') 30"
    by (simp_all add: d p)
  have c: "(0::real) \<le> 60" and e: "(10::real) \<le> 50" by simp_all
  from climate_monotone_in_heat [OF a b c e] d p show ?thesis by simp
qed

subsection \<open>Agreement and turnout\<close>

text \<open>
  C10. The agreement computed by \<^verbatim>\<open>_calculate_agreement\<close> does not depend on the turnout
  passed to it: with the same sentiment breakdown and target, any two turnout values give
  the same agreement.
\<close>

theorem agreement_ignores_turnout:
  "calculate_agreement turnout1 sent target = calculate_agreement turnout2 sent target"
  by (simp add: calculate_agreement_def)

text \<open>
  C9. The raw turnout sum of \<^verbatim>\<open>_calculate_turnout\<close> ranges exactly over the age groups
  of the age structure that are keys of all three coefficient dictionaries; an age group
  that one of them lacks adds nothing to the sum and leaves the turnout as it is without
  it. The function returns a number on every input: no lookup in it can raise.
\<close>

theorem turnout_skips_missing_groups:
  "total_turnout ages psy med soc =
     sum_list (map (\<lambda>(k, share). share / 100 * voting_intention (the (map_of psy k))
                                  * media_coefficient (the (map_of med k))
                                  * social_coefficient (the (map_of soc k)))
             (filter (\<lambda>(k, share). k \<in> dom (map_of psy) \<and> k \<in> dom (map_of med)
                                   \<and> k \<in> dom (map_of soc)) ages))
   \<and> (g \<notin> dom (map_of psy) \<or> g \<notin> dom (map_of med) \<or> g \<notin> dom (map_of soc) \<longrightarrow>
        total_turnout (before @ (g, share) # after) psy med soc
          = total_turnout (before @ after) psy med soc
        \<and> calculate_turnout (before @ (g, share) # after) psy med soc cl rg tg
          = calculate_turnout (before @ after) psy med soc cl rg tg)"
proof -
  have eq: "\<And>ages. total_turnout ages psy med soc =
     sum_list (map (\<lambda>(k, share). share / 100 * voting_intention (the (map_of psy k))
                                  * media_coefficient (the (map_of med k))
                                  * social_coefficient (the (map_of soc k)))
             (filter (\<lambda>(k, share). k \<in> dom (map_of psy) \<and> k \<in> dom (map_of med)
                                   \<and> k \<in> dom (map_of soc)) ages))"
    by (simp add: total_turnout_def fold_turnout_step)
  have skip: "g \<notin> dom (map_of psy) \<or> g \<notin> dom (map_of med) \<or> g \<notin> dom (map_of soc) \<Longrightarrow>
        total_turnout (before @ (g, share) # after) psy med soc
          = total_turnout (before @ after) psy med soc"
    unfolding eq by auto
  from eq skip show ?thesis by (simp add: calculate_turnout_def)
qed

theorem turnout_skips_missing_groups_witness:
  "middle_key \<notin> dom (map_of [(youth_key, \<lparr> media_coefficient = 1, dominant_platforms = [] \<rparr>)])
   \<and> total_turnout ([(youth_key, 60)] @ (middle_key, 40) # [])
        [(youth_key, \<lparr> political_interest = 0.6, political_efficacy = 0.7,
                   economic_motivation = 0.8, percentage = 60, voting_intention = 0.336 \<rparr>),
         (middle_key, \<lparr> political_interest = 0.8, political_efficacy = 0.6,
                   economic_motivation = 0.9, percentage = 40, voting_intention = 0.432 \<rparr>)]
        [(youth_key, \<lparr> media_coefficient = 1, dominant_platforms = [] \<rparr>)]
        [(youth_key, social_entry 1 1 1 0.3), (middle_key, social_entry 1 1 1 0.25)]
     = total_turnout ([(youth_key, 60)] @ [])
        [(youth_key, \<lparr> political_interest = 0.6, political_efficacy = 0.7,
                   economic_motivation = 0.8, percentage = 60, voting_intention = 0.336 \<rparr>),
         (middle_key, \<lparr> political_interest = 0.8, political_efficacy = 0.6,
                   economic_motivation = 0.9, percentage = 40, voting_intention = 0.432 \<rparr>)]
        [(youth_key, \<lparr> media_coefficient = 1, dominant_platforms = [] \<rparr>)]
        [(youth_key, social_entry 1 1 1 0.3), (middle_key, social_entry 1 1 1 0.25)]"
proof -
  have m: "middle_key \<notin> dom (map_of [(youth_key,
              \<lparr> media_coefficient = 1, dominant_platforms = [] \<rparr>)])"
    by (simp add: age_keys_distinct)
  from turnout_skips_missing_groups [of "[(youth_key, 60)] @ (middle_key, 40) # []"
      "[(youth_key, \<lparr> political_interest = 0.6, political_efficacy = 0.7,
                   economic_motivation = 0.8, percentage = 60, voting_intention = 0.336 \<rparr>),
        (middle_key, \<lparr> political_interest = 0.8, political_efficacy = 0.6,
                   economic_motivation = 0.9, percentage = 40, voting_intention = 0.432 \<rparr>)]"
      "[(youth_key, \<lparr> media_coefficient = 1, dominant_platforms = [] \<rparr>)]"
      "[(youth_key, social_entry 1 1 1 0.3), (middle_key, social_entry 1 1 1 0.25)]"
      middle_key "[(youth_key, 60)]" 40 "[]"] m
  show ?thesis by blast
qed

subsection \<open>Unknown age groups\<close>

text \<open>
  C4 (as stated, refuted). On an age structure with a key that is not one of the three
  age groups, here \<open>teen\<close>, the motivation agent and the media agent both raise
  \<^verbatim>\<open>KeyError\<close>: there is no default of 0.
\<close>

theorem estimators_raise_on_unknown_group:
  "PsychologicalMotivationAgent_analyze [(youth_key, 70), (ascii ''teen'', 30)] [] []
     = Inl (KeyError (ascii ''teen''))
   \<and> MediaEnvironmentAgent_analyze [(youth_key, 70), (ascii ''teen'', 30)] [] []
     = Inl (KeyError (ascii ''teen''))"
  by (simp add: PsychologicalMotivationAgent_analyze_def MediaEnvironmentAgent_analyze_def
      get_base_params_def base_table_def media_weights_def dict_item_def
      youth_key_def middle_key_def elder_key_def ascii_def any_in_def
      han_kuo_yu_def ko_wen_je_def lo_chih_chiang_def jaw_shaw_kong_def
      get_media_attention_def media_entry_def)

text \<open>
  C4 (amended). When every key of the age structure is one of the three age groups, the
  motivation agent and the media agent each return a result with an entry for every key,
  in order. When some key is not, both raise \<^verbatim>\<open>KeyError\<close> for a key that is not an age
  group.
\<close>

theorem estimators_total_on_known_groups:
  "(set (map fst ages) \<subseteq> set age_groups \<longrightarrow>
      (\<exists>r. PsychologicalMotivationAgent_analyze ages target ctx = Inr r
            \<and> map fst r = map fst ages)
    \<and> (\<exists>r. MediaEnvironmentAgent_analyze ages target cov = Inr r
            \<and> map fst r = map fst ages))
   \<and> (\<not> set (map fst ages) \<subseteq> set age_groups \<longrightarrow>
      (\<exists>k. k \<in> set (map fst ages) \<and> k \<notin> set age_groups
            \<and> PsychologicalMotivationAgent_analyze ages target ctx = Inl (KeyError k)
            \<and> MediaEnvironmentAgent_analyze ages target cov = Inl (KeyError k)))"
proof (intro conjI impI)
  assume known: "set (map fst ages) \<subseteq> set age_groups"
  then have "set (map fst ages) \<subseteq> set (map fst (get_base_params target))"
    by (simp only: base_params_keys)
  then show "\<exists>r. PsychologicalMotivationAgent_analyze ages target ctx = Inr r
            \<and> map fst r = map fst ages"
    unfolding PsychologicalMotivationAgent_analyze_def by (rule psychological_loop_total)
  from known have "set (map fst ages) \<subseteq> set (map fst media_weights)"
    by (simp only: media_weights_keys)
  then show "\<exists>r. MediaEnvironmentAgent_analyze ages target cov = Inr r
            \<and> map fst r = map fst ages"
    unfolding MediaEnvironmentAgent_analyze_def by (rule media_loop_total)
next
  assume "\<not> set (map fst ages) \<subseteq> set age_groups"
  then obtain k where f: "find (\<lambda>k. k \<notin> set age_groups) (map fst ages) = Some k"
    by (cases "find (\<lambda>k. k \<notin> set age_groups) (map fst ages)")
       (auto simp: find_None_iff)
  then have k: "k \<in> set (map fst ages)" "k \<notin> set age_groups"
    by (auto simp: find_Some_iff)
  from f have "find (\<lambda>k. k \<notin> set (map fst (get_base_params target))) (map fst ages) = Some k"
    by (simp only: base_params_keys)
  then have p: "PsychologicalMotivationAgent_analyze ages target ctx = Inl (KeyError k)"
    unfolding PsychologicalMotivationAgent_analyze_def by (rule psychological_loop_raises)
  from f have "find (\<lambda>k. k \<notin> set (map fst media_weights)) (map fst ages) = Some k"
    by (simp only: media_weights_keys)
  then have m: "MediaEnvironmentAgent_analyze ages target cov = Inl (KeyError k)"
    unfolding MediaEnvironmentAgent_analyze_def by (rule media_loop_raises)
  from k p m show "\<exists>k. k \<in> set (map fst ages) \<and> k \<notin> set age_groups
            \<and> PsychologicalMotivationAgent_analyze ages target ctx = Inl (KeyError k)
            \<and> MediaEnvironmentAgent_analyze ages target cov = Inl (KeyError k)"
    by blast
qed

theorem estimators_total_on_known_groups_witness:
  "set (map fst [(youth_key, 30::real), (middle_key, 45), (elder_key, 25)]) \<subseteq> set age_groups
   \<and> (\<exists>r. PsychologicalMotivationAgent_analyze [(youth_key, 30), (middle_key, 45), (elder_key, 25)]
             han_kuo_yu [] = Inr r
          \<and> map fst r = map fst [(youth_key, 30::real), (middle_key, 45), (elder_key, 25)])
   \<and> \<not> set (map fst [(youth_key, 70::real), (ascii ''teen'', 30)]) \<subseteq> set age_groups
   \<and> (\<exists>k. k \<notin> set age_groups
          \<and> MediaEnvironmentAgent_analyze [(youth_key, 70), (ascii ''teen'', 30)] han_kuo_yu []
              = Inl (KeyError k))"
proof -
  have a: "set (map fst [(youth_key, 30::real), (middle_key, 45), (elder_key, 25)]) \<subseteq> set age_groups"
    by (simp add: age_groups_def)
  have b: "\<not> set (map fst [(youth_key, 70::real), (ascii ''teen'', 30)]) \<subseteq> set age_groups"
    by (simp add: age_groups_def youth_key_def middle_key_def elder_key_def ascii_def)
  from estimators_total_on_known_groups
         [of "[(youth_key, 30), (middle_key, 45), (elder_key, 25)]" han_kuo_yu "[]" "[]"]
       estimators_total_on_known_groups
         [of "[(youth_key, 70), (ascii ''teen'', 30)]" han_kuo_yu "[]" "[]"] a b
  show ?thesis by blast
qed

subsection \<open>The prediction\<close>

text \<open>
  C1 (as stated, refuted). The turnout has no upper bound of 100: for the example scenario
  (age shares 30/45/25, a target of intensity 1.8, forum sentiment 60/60, heat 90, peer
  pressure 80, fair weather, Kaohsiung City) \<^verbatim>\<open>predict\<close> returns a turnout above 100 per
  cent. The source returns \<open>max(final_turnout, 20)\<close> and says that it sets no upper limit.
\<close>

theorem turnout_above_hundred:
  "\<not> isl (fst (predict han_scenario (two_phase, 0)))
   \<and> 100 < predicted_turnout (projr (fst (predict han_scenario (two_phase, 0))))"
proof -
  have "\<not> isl (fst (predict han_scenario (two_phase, 0)))"
    by (subst han_scenario_ages) (simp add: han_predict)
  then show ?thesis by (simp add: han_turnout)
qed

text \<open>
  C1 (amended). Every prediction that \<^verbatim>\<open>predict\<close> returns has a turnout of at least 20
  and an agreement between 10 and 90 (per cent); and \<^verbatim>\<open>predict\<close> returns a prediction
  for every scenario that has a recall target and an age structure over the three age
  groups.
\<close>

theorem prediction_bounds:
  "(predict s g = (Inr r, g') \<longrightarrow>
      20 \<le> predicted_turnout r \<and> 10 \<le> predicted_agreement r \<and> predicted_agreement r \<le> 90)
   \<and> (age_structure s = Some ages \<and> set (map fst ages) \<subseteq> set age_groups
        \<and> recall_target s = Some target \<longrightarrow>
      (\<exists>r g'. predict s g = (Inr r, g')))"
proof -
  have bounds: "predict s g = (Inr r, g') \<longrightarrow>
      20 \<le> predicted_turnout r \<and> 10 \<le> predicted_agreement r \<and> predicted_agreement r \<le> 90"
  proof
    assume "predict s g = (Inr r, g')"
    then obtain ages target psy med soc cl rg sent
      where "r = combine ages target psy med soc cl rg sent"
      using predict_InrD by blast
    then show "20 \<le> predicted_turnout r \<and> 10 \<le> predicted_agreement r
                 \<and> predicted_agreement r \<le> 90"
      by (simp add: combine_fields turnout_floor agreement_range)
  qed
  have returns: "age_structure s = Some ages \<and> set (map fst ages) \<subseteq> set age_groups
        \<and> recall_target s = Some target \<longrightarrow> (\<exists>r g'. predict s g = (Inr r, g'))"
  proof
    assume v: "age_structure s = Some ages \<and> set (map fst ages) \<subseteq> set age_groups
          \<and> recall_target s = Some target"
    then have known: "set (map fst ages) \<subseteq> set age_groups" by simp
    from known have "set (map fst ages) \<subseteq> set (map fst (get_base_params target))"
      by (simp only: base_params_keys)
    then obtain psy where
      p: "PsychologicalMotivationAgent_analyze ages target (get_or (political_context s) [])
            = Inr psy"
      unfolding PsychologicalMotivationAgent_analyze_def
      using psychological_loop_total by blast
    from known have "set (map fst ages) \<subseteq> set (map fst media_weights)"
      by (simp only: media_weights_keys)
    then obtain med where
      m: "MediaEnvironmentAgent_analyze ages target (get_or (media_coverage s) []) = Inr med"
      unfolding MediaEnvironmentAgent_analyze_def
      using media_loop_total by blast
    from v have a: "age_structure s = Some ages" and t: "recall_target s = Some target"
      by simp_all
    from predict_success [OF a t p m, of g]
    show "\<exists>r g'. predict s g = (Inr r, g')" by blast
  qed
  from bounds returns show ?thesis by blast
qed

theorem prediction_bounds_witness:
  "age_structure han_scenario = Some [(youth_key, 30), (middle_key, 45), (elder_key, 25)]
   \<and> set (map fst [(youth_key, 30::real), (middle_key, 45), (elder_key, 25)]) \<subseteq> set age_groups
   \<and> recall_target han_scenario = Some han_target
   \<and> predict han_scenario (two_phase, 0)
       = (Inr (projr (fst (predict han_scenario (two_phase, 0)))), (two_phase, 23))
   \<and> 20 \<le> predicted_turnout (projr (fst (predict han_scenario (two_phase, 0))))
   \<and> 10 \<le> predicted_agreement (projr (fst (predict han_scenario (two_phase, 0))))
   \<and> predicted_agreement (projr (fst (predict han_scenario (two_phase, 0)))) \<le> 90"
proof -
  have h: "age_structure han_scenario = Some [(youth_key, 30), (middle_key, 45), (elder_key, 25)]
     \<and> set (map fst [(youth_key, 30::real), (middle_key, 45), (elder_key, 25)]) \<subseteq> set age_groups
     \<and> recall_target han_scenario = Some han_target"
    by (simp add: han_scenario_def age_groups_def)
  have e: "predict han_scenario (two_phase, 0)
       = (Inr (projr (fst (predict han_scenario (two_phase, 0)))), (two_phase, 23))"
    by (subst (1 2) han_scenario_ages) (simp add: han_predict analyze_state)
  from prediction_bounds [of han_scenario "(two_phase, 0)"
      "projr (fst (predict han_scenario (two_phase, 0)))" "(two_phase, 23)"
      "[(youth_key, 30), (middle_key, 45), (elder_key, 25)]" han_target] h e
  show ?thesis by blast
qed

text \<open>
  C5 (as stated, refuted). With age shares 50/30/20 in the scenario, the agreement that
  \<^verbatim>\<open>predict\<close> returns is not the one the formula gives with those shares: the code
  weighs the three sentiment coefficients by the constants 0.30, 0.45 and 0.25.
\<close>

theorem agreement_uses_fixed_shares_example:
  "\<not> isl (fst (predict shifted_scenario (two_phase, 0)))
   \<and> predicted_agreement (projr (fst (predict shifted_scenario (two_phase, 0))))
       \<noteq> spec_agreement [(youth_key, 50), (middle_key, 30), (elder_key, 20)]
            (sentiment (results (projr (fst (predict shifted_scenario (two_phase, 0))))))
            (get_dynamic_political_intensity (Some han_target))"
proof -
  have sh: "dict_get [(youth_key, 50), (middle_key, 30), (elder_key, 20)] youth_key (0::real) = 50"
    "dict_get [(youth_key, 50), (middle_key, 30), (elder_key, 20)] middle_key (0::real) = 30"
    "dict_get [(youth_key, 50), (middle_key, 30), (elder_key, 20)] elder_key (0::real) = 20"
    by (simp_all add: dict_get_def age_keys_distinct)
  show ?thesis
    by (simp add: shifted_scenario_def han_predict combine_fields agreement_eq
        spec_agreement_def fixed_shares sh han_sentiment_first han_intensity)
qed

text \<open>
  C5 (amended). The agreement of every prediction is
  \<open>clamp((0.30 * (youth_forum * 1.2) + 0.45 * (middle_forum * 1.0)
  + 0.25 * (elder_news * 0.8)) * political_intensity * 100, 10, 90)\<close>, with the constants
  0.30, 0.45 and 0.25 for the age shares, whatever the age structure of the scenario.
\<close>

theorem agreement_formula:
  "predict s g = (Inr r, g') \<Longrightarrow> recall_target s = Some target \<Longrightarrow>
     predicted_agreement r =
       min (max ((0.30 * (s1_youth_forum (sentiment (results r)) * 1.2)
                  + 0.45 * (s2_middle_forum (sentiment (results r)) * 1.0)
                  + 0.25 * (s3_elder_news (sentiment (results r)) * 0.8))
                 * get_dynamic_political_intensity (Some target) * 100) 10) 90"
proof -
  assume pr: "predict s g = (Inr r, g')" and t: "recall_target s = Some target"
  from pr obtain ages target' psy med soc cl rg sent
    where "recall_target s = Some target'" "r = combine ages target' psy med soc cl rg sent"
    using predict_InrD by blast
  with t have "r = combine ages target psy med soc cl rg sent" by simp
  then show ?thesis
    by (simp add: combine_fields agreement_eq spec_agreement_def fixed_shares)
qed

theorem agreement_formula_witness:
  "predict han_scenario (two_phase, 0)
       = (Inr (projr (fst (predict han_scenario (two_phase, 0)))), (two_phase, 23))
   \<and> recall_target han_scenario = Some han_target
   \<and> predicted_agreement (projr (fst (predict han_scenario (two_phase, 0)))) = 35487 / 400"
proof -
  have e: "predict han_scenario (two_phase, 0)
       = (Inr (projr (fst (predict han_scenario (two_phase, 0)))), (two_phase, 23))"
    by (subst (1 2) han_scenario_ages) (simp add: han_predict analyze_state)
  have t: "recall_target han_scenario = Some han_target"
    by (simp add: han_scenario_def)
  have s: "sentiment (results (projr (fst (predict han_scenario (two_phase, 0)))))
             = fst (ForumSentimentAgent_analyze [(ascii ''positive'', 20)]
                      [(ascii ''positive'', 30)] 80 (two_phase, 0))"
    by (subst han_scenario_ages) (simp add: han_predict combine_fields)
  from agreement_formula [OF e t] e t
  show ?thesis by (simp add: s han_sentiment_first han_intensity)
qed

text \<open>
  C8 (as stated, refuted). Two successive calls of \<^verbatim>\<open>predict\<close> on the same scenario, the
  second from the generator state that the first leaves, return different agreements: the
  forum-sentiment agent draws its sentiments from the random generator.
\<close>

theorem predict_twice_differs:
  "predicted_agreement (projr (fst (predict han_scenario (two_phase, 0))))
     \<noteq> predicted_agreement
          (projr (fst (predict han_scenario (snd (predict han_scenario (two_phase, 0))))))"
  unfolding han_state han_agreement_first han_agreement_second by simp

text \<open>
  C8 (amended). The turnout and the results of the motivation, media, social-atmosphere,
  weather and regional agents in the prediction (or the exception raised) are the same for
  any two calls of \<^verbatim>\<open>predict\<close> on the same scenario, whatever the state of the random
  generator. The agreement may differ between two calls on the same scenario: there are a
  scenario and two generator states from which \<^verbatim>\<open>predict\<close> returns predictions with
  different agreements.
\<close>

theorem predict_deterministic_part:
  "map_sum id without_sentiment (fst (predict s g1))
     = map_sum id without_sentiment (fst (predict s g2))
   \<and> (\<exists>s' g g'. \<not> isl (fst (predict s' g)) \<and> \<not> isl (fst (predict s' g'))
         \<and> predicted_agreement (projr (fst (predict s' g)))
             \<noteq> predicted_agreement (projr (fst (predict s' g'))))"
proof -
  have same: "map_sum id without_sentiment (fst (predict s g1))
     = map_sum id without_sentiment (fst (predict s g2))"
    by (simp add: predict_def without_sentiment_def combine_fields Let_def case_prod_beta
        split: option.splits sum.splits)
  have "predicted_agreement (projr (fst (predict han_scenario (two_phase, 0))))
          \<noteq> predicted_agreement (projr (fst (predict han_scenario (two_phase, 23))))"
    unfolding han_agreement_first han_agreement_second by simp
  then have differ: "\<exists>s' g g'. \<not> isl (fst (predict s' g)) \<and> \<not> isl (fst (predict s' g'))
         \<and> predicted_agreement (projr (fst (predict s' g)))
             \<noteq> predicted_agreement (projr (fst (predict s' g')))"
    using han_returns by blast
  from same differ show ?thesis by blast
qed

end
